theory Spec2Isabelle
  imports Main "HOL-Library.Word"
begin

section \<open>Values of the Ethereum client library\<close>

text \<open>
  The programs of the repository are straight-line sequences of calls into go-ethereum
  (\<^verbatim>\<open>ethclient\<close>, \<^verbatim>\<open>bind\<close>, \<^verbatim>\<open>crypto\<close>, \<^verbatim>\<open>types\<close>), \<^verbatim>\<open>godotenv\<close> and the generated
  \<^verbatim>\<open>counter\<close> binding. None of these is part of the sources, so what they answer is a
  parameter of the model (the record \<open>env\<close> below). Handles whose inside the programs
  never look at (keys, addresses, hashes, signed transactions, transactor options) are
  natural numbers; \<^verbatim>\<open>uint64\<close> is \<open>64 word\<close> and \<^verbatim>\<open>*big.Int\<close> is \<open>int\<close>.
\<close>

type_synonym err = string
type_synonym address = nat
type_synonym hash = nat
type_synonym privkey = nat
type_synonym signed_tx = nat
type_synonym transact_opts = nat

text \<open>\<^verbatim>\<open>types.NewTransaction(nonce, to, amount, gasLimit, gasPrice, data)\<close>.\<close>

record tx =
  tx_nonce :: "64 word"
  tx_to :: address
  tx_amount :: int
  tx_gasLimit :: "64 word"
  tx_gasPrice :: int
  tx_data :: "8 word list"

record block =
  blk_number :: int
  blk_hash :: hash
  blk_time :: "64 word"
  blk_transactions :: nat

record receipt =
  rcpt_status :: "64 word"
  rcpt_blockNumber :: int
  rcpt_gasUsed :: "64 word"

text \<open>
  What the collaborators answer. \<open>os_getenv\<close> is the environment as \<^verbatim>\<open>os.Getenv\<close> reads it
  after \<^verbatim>\<open>godotenv.Load()\<close>. An RPC method that a program calls once per argument is
  a function of the argument; \<^verbatim>\<open>GetCount\<close>, which task02 calls up to three times with the
  same argument, is indexed by the number of the call. \<^verbatim>\<open>bind.WaitMined\<close> is given
  \<^verbatim>\<open>context.Background()\<close>, which has no deadline, so it may also never return
  (\<open>None\<close>).
\<close>

record env =
  dotenv_load :: "err option"
  os_getenv :: "string \<Rightarrow> string"
  rpc_dial :: "string \<Rightarrow> err option"
  rpc_blockByNumber :: "int option \<Rightarrow> err + block"
  rpc_balanceAt :: "address \<Rightarrow> err + int"
  rpc_pendingNonceAt :: "address \<Rightarrow> err + 64 word"
  rpc_suggestGasPrice :: "err + int"
  rpc_networkID :: "err + int"
  rpc_sendTransaction :: "signed_tx \<Rightarrow> err option"
  rpc_getCount :: "nat \<Rightarrow> err + int"
  rpc_increment :: "transact_opts \<Rightarrow> err + signed_tx"
  rpc_waitMined :: "signed_tx \<Rightarrow> (err + receipt) option"
  lib_hexToECDSA :: "string \<Rightarrow> err + privkey"
  lib_pubkeyToAddress :: "privkey \<Rightarrow> address"
  lib_hexToAddress :: "string \<Rightarrow> address"
  lib_signTx :: "tx \<Rightarrow> int \<Rightarrow> privkey \<Rightarrow> err + signed_tx"
  lib_txHash :: "signed_tx \<Rightarrow> hash"
  lib_newKeyedTransactorWithChainID :: "privkey \<Rightarrow> int \<Rightarrow> err + transact_opts"
  lib_newCounter :: "address \<Rightarrow> err option"

section \<open>Runs: results and traces\<close>

text \<open>
  The arguments of a log or print line. How a format verb renders them is not modelled:
  \<open>VEth\<close> and \<open>VGwei\<close> stand for the strings \<^verbatim>\<open>weiToEth\<close> and \<^verbatim>\<open>weiToGwei\<close> make with
  \<^verbatim>\<open>big.Float\<close>.
\<close>

datatype val =
    VStr string
  | VU64 "64 word"
  | VBig int
  | VLen nat
  | VErr err
  | VEth int
  | VGwei int
  | VHash hash
  | VAddr address

text \<open>
  Everything a run does to the outside, in order: lines written by \<^verbatim>\<open>log\<close> and \<^verbatim>\<open>fmt\<close>
  (format string without its line breaks, and arguments), the calls that reach the
  network or sign, and sleeps (in seconds).
\<close>

datatype event =
    Log string "val list"
  | Print string "val list"
  | DialContext string
  | BlockByNumber "int option"
  | BalanceAt address
  | PendingNonceAt address
  | SuggestGasPrice
  | NetworkID
  | SignTx tx int privkey
  | SendTransaction signed_tx
  | NewKeyedTransactorWithChainID privkey int
  | NewCounter address
  | GetCount
  | Increment transact_opts
  | WaitMined signed_tx
  | Sleep nat

text \<open>
  A run returns a value, exits the process (\<^verbatim>\<open>log.Fatal\<close>, \<^verbatim>\<open>log.Fatalf\<close>: the line is
  written and \<^verbatim>\<open>os.Exit(1)\<close> follows), or blocks for ever. The deferred
  \<^verbatim>\<open>client.Close()\<close> of a run that returns is not represented.
\<close>

datatype 'a res = Ret 'a | Exit | Hang

type_synonym 'a run = "'a res \<times> event list"

definition ret :: "'a \<Rightarrow> 'a run" where
  "ret x = (Ret x, [])"

definition emit :: "event \<Rightarrow> unit run" where
  "emit ev = (Ret (), [ev])"

definition call :: "event \<Rightarrow> 'a \<Rightarrow> 'a run" where
  "call ev answer = (Ret answer, [ev])"

definition fatal :: "string \<Rightarrow> val list \<Rightarrow> 'a run" where
  "fatal fmt args = (Exit, [Log fmt args])"

definition bnd :: "'a run \<Rightarrow> ('a \<Rightarrow> 'b run) \<Rightarrow> 'b run" where
  "bnd m f =
     (case m of
        (Ret x, t) \<Rightarrow> (case f x of (r, t') \<Rightarrow> (r, t @ t'))
      | (Exit, t) \<Rightarrow> (Exit, t)
      | (Hang, t) \<Rightarrow> (Hang, t))"

definition andthen :: "unit run \<Rightarrow> 'b run \<Rightarrow> 'b run" where
  "andthen m k = bnd m (\<lambda>_. k)"

text \<open>\<^verbatim>\<open>x, err := f(...); if err != nil { log.Fatalf(msg, err) }\<close>\<close>

definition orFatal :: "(err + 'a) run \<Rightarrow> string \<Rightarrow> 'a run" where
  "orFatal m msg =
     bnd m (\<lambda>r. case r of Inl er \<Rightarrow> fatal msg [VErr er] | Inr x \<Rightarrow> ret x)"

text \<open>\<^verbatim>\<open>err := f(...); if err != nil { log.Fatalf(msg, err) }\<close>\<close>

definition orFatal0 :: "(err option) run \<Rightarrow> string \<Rightarrow> unit run" where
  "orFatal0 m msg =
     bnd m (\<lambda>r. case r of Some er \<Rightarrow> fatal msg [VErr er] | None \<Rightarrow> ret ())"

definition trace :: "'a run \<Rightarrow> event list" where
  "trace m = snd m"

definition result :: "'a run \<Rightarrow> 'a res" where
  "result m = fst m"

text \<open>The events that leave the process for the node.\<close>

fun is_network :: "event \<Rightarrow> bool" where
  "is_network (Log _ _) = False"
| "is_network (Print _ _) = False"
| "is_network (Sleep _) = False"
| "is_network (SignTx _ _ _) = False"
| "is_network (NewKeyedTransactorWithChainID _ _) = False"
| "is_network (NewCounter _) = False"
| "is_network _ = True"

section \<open>The transfer flow: task01\<close>

definition default_rpc :: string where
  "default_rpc = ''https://eth-sepolia.g.alchemy.com/v2/5kxZJaABVsl6R8LWJEcDvkapc6nwG8ik''"

text \<open>\<^verbatim>\<open>godotenv.Load()\<close>: a failure is only reported.\<close>

definition load_dotenv :: "env \<Rightarrow> unit run" where
  "load_dotenv e =
     (case dotenv_load e of
        Some _ \<Rightarrow> emit (Log ''Warning: .env file not found, using system environment variables'' [])
      | None \<Rightarrow> ret ())"

text \<open>Lines 215-282 of task01, from the parsing of the key to the last print.\<close>

definition task01_send :: "env \<Rightarrow> string \<Rightarrow> string \<Rightarrow> unit run" where
  "task01_send e privateKeyHex recipientAddr =
     andthen (emit (Print ''=== Preparing Transaction ==='' [])) (
     bnd (orFatal (ret (lib_hexToECDSA e privateKeyHex)) ''Failed to parse private key: %v'') (\<lambda>privateKey.
     let fromAddress = lib_pubkeyToAddress e privateKey in
     andthen (emit (Print ''From Address: %s'' [VAddr fromAddress])) (
     andthen (emit (Print ''To Address: %s'' [VStr recipientAddr])) (
     bnd (orFatal (call (BalanceAt fromAddress) (rpc_balanceAt e fromAddress))
            ''Failed to get balance: %v'') (\<lambda>balance.
     andthen (emit (Print ''Account Balance: %s ETH'' [VEth balance])) (
     bnd (orFatal (call (PendingNonceAt fromAddress) (rpc_pendingNonceAt e fromAddress))
            ''Failed to get nonce: %v'') (\<lambda>nonce.
     andthen (emit (Print ''Nonce: %d'' [VU64 nonce])) (
     let amount = (1000000000000000 :: int);
         gasLimit = (21000 :: 64 word) in
     bnd (orFatal (call SuggestGasPrice (rpc_suggestGasPrice e))
            ''Failed to suggest gas price: %v'') (\<lambda>gasPrice.
     andthen (emit (Print ''Transfer Amount: %s ETH'' [VEth amount])) (
     andthen (emit (Print ''Gas Price: %s Gwei'' [VGwei gasPrice])) (
     andthen (emit (Print ''Gas Limit: %d'' [VU64 gasLimit])) (
     let totalCost = amount + gasPrice * sint gasLimit in
     andthen (emit (Print ''Total Cost (including gas): %s ETH'' [VEth totalCost])) (
     if balance < totalCost
     then fatal ''Insufficient balance! Need %s ETH but only have %s ETH''
            [VEth totalCost, VEth balance]
     else
     let toAddress = lib_hexToAddress e recipientAddr;
         tx = \<lparr>tx_nonce = nonce, tx_to = toAddress, tx_amount = amount,
               tx_gasLimit = gasLimit, tx_gasPrice = gasPrice, tx_data = []\<rparr> in
     bnd (orFatal (call NetworkID (rpc_networkID e)) ''Failed to get network ID: %v'') (\<lambda>chainID.
     bnd (orFatal (call (SignTx tx chainID privateKey) (lib_signTx e tx chainID privateKey))
            ''Failed to sign transaction: %v'') (\<lambda>signedTx.
     andthen (orFatal0 (call (SendTransaction signedTx) (rpc_sendTransaction e signedTx))
            ''Failed to send transaction: %v'') (
     andthen (emit (Print ''=== Transaction Sent Successfully ==='' [])) (
     andthen (emit (Print ''Transaction Hash: %s'' [VHash (lib_txHash e signedTx)])) (
     andthen (emit (Print ''View on Etherscan: https://sepolia.etherscan.io/tx/%s''
                [VHash (lib_txHash e signedTx)])) (
     andthen (emit (Print ''From: %s'' [VAddr fromAddress])) (
     andthen (emit (Print ''To: %s'' [VAddr toAddress])) (
     andthen (emit (Print ''Amount: %s ETH'' [VEth amount])) (
     andthen (emit (Print ''Gas Price: %s Gwei'' [VGwei gasPrice])) (
     andthen (emit (Print
        ''Note: It may take 15-30 seconds for the transaction to be confirmed on the network.'' [])) (
     emit (Print ''Check the Etherscan link above to monitor the transaction status.'' [])
     ))))))))))))))))))))))))"

text \<open>Lines 189-213 of task01: the connection and the two block queries.\<close>

definition task01_blocks :: "env \<Rightarrow> string \<Rightarrow> unit run" where
  "task01_blocks e sepoliaRPC =
     andthen (orFatal0 (call (DialContext sepoliaRPC) (rpc_dial e sepoliaRPC))
            ''Failed to connect to the Ethereum client: %v'') (
     andthen (emit (Print ''Connected to Sepolia network'' [])) (
     bnd (orFatal (call (BlockByNumber None) (rpc_blockByNumber e None))
            ''Failed to get latest block (connection issue): %v'') (\<lambda>latestBlock.
     andthen (emit (Print ''Latest Block Number: %d'' [VU64 (word_of_int (blk_number latestBlock))])) (
     let blockNumber = (5671744 :: int) in
     bnd (orFatal (call (BlockByNumber (Some blockNumber)) (rpc_blockByNumber e (Some blockNumber)))
            ''Failed to retrieve block: %v'') (\<lambda>blk.
     andthen (emit (Print ''Block Number: %d'' [VU64 (word_of_int (blk_number blk))])) (
     andthen (emit (Print ''Block Hash: %s'' [VHash (blk_hash blk)])) (
     andthen (emit (Print ''Block Time: %d'' [VU64 (blk_time blk)])) (
     emit (Print ''Block Transactions: %d'' [VLen (blk_transactions blk)])
     ))))))))"

definition task01 :: "env \<Rightarrow> unit run" where
  "task01 e =
     andthen (load_dotenv e) (
     let sepoliaRPC0 = os_getenv e ''SEPOLIA_RPC'';
         sepoliaRPC = (if sepoliaRPC0 = [] then default_rpc else sepoliaRPC0);
         privateKeyHex = os_getenv e ''PRIVATE_KEY'' in
     if privateKeyHex = [] then fatal ''PRIVATE_KEY environment variable is required'' []
     else
     let recipientAddr = os_getenv e ''RECIPIENT_ADDR'' in
     if recipientAddr = [] then fatal ''RECIPIENT_ADDR environment variable is required'' []
     else
     andthen (task01_blocks e sepoliaRPC) (task01_send e privateKeyHex recipientAddr))"

section \<open>The contract flow: task02\<close>

text \<open>
  \<^verbatim>\<open>bind.WaitMined(ctx, client, tx)\<close> with a context that has no deadline: it returns a
  receipt or an error, or it never returns.
\<close>

definition waitMined :: "env \<Rightarrow> signed_tx \<Rightarrow> (err + receipt) run" where
  "waitMined e stx =
     (case rpc_waitMined e stx of
        None \<Rightarrow> (Hang, [WaitMined stx])
      | Some answer \<Rightarrow> call (WaitMined stx) answer)"

text \<open>
  Lines 102-132 of task02: the counter is read again and compared. The two lines that
  start with an emoji keep its three UTF-8 bytes.
\<close>

definition task02_verify :: "env \<Rightarrow> signed_tx \<Rightarrow> int \<Rightarrow> unit run" where
  "task02_verify e stx countBefore =
     andthen (emit (Log ''Waiting for state synchronization...'' [])) (
     andthen (emit (Sleep 2)) (
     bnd (orFatal (call GetCount (rpc_getCount e 1)) ''Failed to get counter value: %v'') (\<lambda>count.
     andthen (emit (Log ''Current counter value after confirmation: %d'' [VBig count])) (
     if count > countBefore
     then emit (Log (CHR 0xE2 # CHR 0x9C # CHR 0x85 # '' SUCCESS: Counter incremented from %d to %d'')
                 [VBig countBefore, VBig count])
     else
     andthen (emit (Log (CHR 0xE2 # CHR 0x9D # CHR 0x8C #
                 '' WARNING: Counter did not increment! Before: %d, After: %d'')
                 [VBig countBefore, VBig count])) (
     andthen (emit (Log ''Check transaction details on Etherscan: https://sepolia.etherscan.io/tx/%s''
                 [VHash (lib_txHash e stx)])) (
     andthen (emit (Log ''Retrying query with latest block...'' [])) (
     andthen (emit (Sleep 1)) (
     bnd (call GetCount (rpc_getCount e 2)) (\<lambda>r.
       case r of
         Inl er \<Rightarrow> emit (Log ''Retry query failed: %v'' [VErr er])
       | Inr countRetry \<Rightarrow> emit (Log ''Retry result: %d'' [VBig countRetry]))
     ))))))))"

text \<open>Lines 87-100 of task02: the wait for the receipt and the test of its status.\<close>

definition task02_wait :: "env \<Rightarrow> signed_tx \<Rightarrow> int \<Rightarrow> unit run" where
  "task02_wait e stx countBefore =
     andthen (emit (Log ''Waiting for transaction to be confirmed...'' [])) (
     bnd (orFatal (waitMined e stx) ''Failed to wait for transaction confirmation: %v'') (\<lambda>rcpt.
     andthen
       (if rcpt_status rcpt = 1
        then
          andthen (emit (Log ''Transaction confirmed successfully in block: %d''
                      [VU64 (word_of_int (rcpt_blockNumber rcpt))])) (
          emit (Log ''Gas used: %d'' [VU64 (rcpt_gasUsed rcpt)]))
        else fatal ''Transaction failed with status: %d'' [VU64 (rcpt_status rcpt)])
       (task02_verify e stx countBefore)))"

text \<open>Lines 61-86 of task02: the transactor, the contract binding and the transaction.\<close>

definition task02_contract :: "env \<Rightarrow> privkey \<Rightarrow> int \<Rightarrow> string \<Rightarrow> unit run" where
  "task02_contract e privateKey chainID contractAddr =
     bnd (orFatal (call (NewKeyedTransactorWithChainID privateKey chainID)
                     (lib_newKeyedTransactorWithChainID e privateKey chainID))
            ''Failed to create authorized transactor: %v'') (\<lambda>auth.
     andthen (emit (Log ''Authorized transactor created successfully'' [])) (
     let addr = lib_hexToAddress e contractAddr in
     andthen (orFatal0 (call (NewCounter addr) (lib_newCounter e addr))
            ''Failed to create contract instance: %v'') (
     andthen (emit (Log ''Contract instance created successfully'' [])) (
     bnd (orFatal (call GetCount (rpc_getCount e 0))
            ''Failed to get counter value before increment: %v'') (\<lambda>countBefore.
     andthen (emit (Log ''Counter value BEFORE increment: %d'' [VBig countBefore])) (
     bnd (orFatal (call (Increment auth) (rpc_increment e auth))
            ''Failed to increment counter: %v'') (\<lambda>stx.
     andthen (emit (Log ''Counter increment transaction sent: %s'' [VHash (lib_txHash e stx)])) (
     task02_wait e stx countBefore))))))))"

definition task02 :: "env \<Rightarrow> unit run" where
  "task02 e =
     andthen (load_dotenv e) (
     let rpcURL0 = os_getenv e ''RPC_URL'';
         rpcURL = (if rpcURL0 = [] then default_rpc else rpcURL0);
         privateKeyHex = os_getenv e ''PRIVATE_KEY'' in
     if privateKeyHex = [] then fatal ''PRIVATE_KEY environment variable is required'' []
     else
     let recipientAddr = os_getenv e ''RECIPIENT_ADDR'' in
     if recipientAddr = [] then fatal ''RECIPIENT_ADDR environment variable is required'' []
     else
     let contractAddr = os_getenv e ''CONTRACT_ADDR'' in
     if contractAddr = [] then fatal ''CONTRACT_ADDR environment variable is required'' []
     else
     andthen (orFatal0 (call (DialContext rpcURL) (rpc_dial e rpcURL))
            ''Failed to connect to the Ethereum client: %v'') (
     andthen (emit (Log ''Connected to Sepolia successfully'' [])) (
     bnd (orFatal (ret (lib_hexToECDSA e privateKeyHex)) ''Failed to parse private key: %v'') (\<lambda>privateKey.
     andthen (emit (Log ''Private key loaded successfully'' [])) (
     bnd (orFatal (call NetworkID (rpc_networkID e)) ''Failed to get network ID: %v'') (\<lambda>chainID.
     andthen (emit (Log ''Connected to Sepolia network: %s'' [VBig chainID])) (
     andthen (emit (Log ''Recipient address:'' [VStr recipientAddr])) (
     andthen (emit (Log ''Contract address:'' [VStr contractAddr])) (
     task02_contract e privateKey chainID contractAddr)))))))))"

section \<open>Nonce management as the repository shows it\<close>

text \<open>
  The repository's nonce demonstration (\<^verbatim>\<open>demonstrateMultipleTransactions\<close>,
  \<^verbatim>\<open>demonstrateAdvancedNonceManagement\<close>) runs one loop and prints the rest of its Go
  code as text. The definitions below follow that Go text line by line. The account is
  fixed; \<open>chain i\<close> is what the node answers to the \<open>i\<close>-th \<^verbatim>\<open>PendingNonceAt\<close> call
  (counted from 0). The text discards the error of the call (\<^verbatim>\<open>nonce, _ :=\<close>); go-ethereum
  returns 0 beside an error, so a failed query is an answer 0.
\<close>

type_synonym chain = "nat \<Rightarrow> 64 word"

text \<open>
  The loop that runs:
  \<^verbatim>\<open>for i := 0; i < 3; i++ { currentNonce := startNonce + uint64(i); ... }\<close>,
  with the bound 3 as the parameter \<open>n\<close>.
\<close>

definition batch_nonces :: "64 word \<Rightarrow> nat \<Rightarrow> 64 word list" where
  "batch_nonces startNonce n = map (\<lambda>i. startNonce + of_nat i) [0..<n]"

text \<open>
  The batch pattern (the specification's AllocateBatch):
  \<^verbatim>\<open>nonce, _ := client.PendingNonceAt(ctx, fromAddress)\<close> once, then the loop over
  \<^verbatim>\<open>nonce+uint64(i)\<close>. The argument \<open>q\<close> is the number of queries made before the call;
  the second component of the result is the number made after it.
\<close>

definition AllocateBatch :: "chain \<Rightarrow> nat \<Rightarrow> nat \<Rightarrow> 64 word list \<times> nat" where
  "AllocateBatch chain n q = (batch_nonces (chain q) n, Suc q)"

text \<open>
  \<^verbatim>\<open>type NonceManager struct { client; address; nextNonce uint64 }\<close>. The field
  \<open>queries\<close> is not in the Go text: it counts the \<^verbatim>\<open>PendingNonceAt\<close> calls made through
  \<^verbatim>\<open>nm.client\<close> so far.
\<close>

record NonceManager =
  nextNonce :: "64 word"
  queries :: nat

text \<open>\<^verbatim>\<open>&NonceManager{client: client, address: fromAddress}\<close>\<close>

definition new_manager :: NonceManager where
  "new_manager = \<lparr>nextNonce = 0, queries = 0\<rparr>"

text \<open>
  \<^verbatim>\<open>func (nm *NonceManager) GetNextNonce() uint64\<close> (the specification's AllocateNonce):
  a \<open>nextNonce\<close> of 0 is taken to mean the first call.
\<close>

definition GetNextNonce :: "chain \<Rightarrow> NonceManager \<Rightarrow> 64 word \<times> NonceManager" where
  "GetNextNonce chain nm =
     (let nm1 = (if nextNonce nm = 0
                 then nm\<lparr>nextNonce := chain (queries nm), queries := Suc (queries nm)\<rparr>
                 else nm);
          result = nextNonce nm1
      in (result, nm1\<lparr>nextNonce := nextNonce nm1 + 1\<rparr>))"

text \<open>\<^verbatim>\<open>func (nm *NonceManager) ResetFromNetwork()\<close> (the specification's ResetFromChain).\<close>

definition ResetFromNetwork :: "chain \<Rightarrow> NonceManager \<Rightarrow> NonceManager" where
  "ResetFromNetwork chain nm =
     nm\<lparr>nextNonce := chain (queries nm), queries := Suc (queries nm)\<rparr>"

text \<open>
  The loop of the usage example: a nonce is taken for each transaction, and the manager
  is reset when \<^verbatim>\<open>SendTransaction\<close> returns an error. The list says for each iteration
  whether the send succeeded (the Go text runs five iterations); the result is the
  nonces taken and the manager after the loop.
\<close>

fun usage_loop :: "chain \<Rightarrow> bool list \<Rightarrow> NonceManager \<Rightarrow> 64 word list \<times> NonceManager" where
  "usage_loop chain [] nm = ([], nm)"
| "usage_loop chain (sent # rest) nm =
     (case GetNextNonce chain nm of
        (nonce, nm1) \<Rightarrow>
          (case usage_loop chain rest (if sent then nm1 else ResetFromNetwork chain nm1) of
             (nonces, nm2) \<Rightarrow> (nonce # nonces, nm2)))"

text \<open>
  A query of the node can fail. \<open>answers i\<close> is what the \<open>i\<close>-th \<^verbatim>\<open>PendingNonceAt\<close> call
  returns: a nonce, or \<open>None\<close> for an error. The Go text drops the error
  (\<^verbatim>\<open>nonce, _ :=\<close>) and goes on with the value go-ethereum returns beside it, which is 0.
\<close>

definition discard_error :: "(nat \<Rightarrow> 64 word option) \<Rightarrow> chain" where
  "discard_error answers = (\<lambda>i. case answers i of None \<Rightarrow> 0 | Some n \<Rightarrow> n)"

text \<open>
  Modelled from the spec: \<open>confirmedNonce\<close> is a field of the specification's data model
  only; the Go text of the manager has no such field. The specification takes it from a
  chain query and sets \<open>nextNonce\<close> to it when it is freshly queried, so it is read off
  the run here as the nonce returned by the latest query that succeeded, among the
  queries made so far. A failed query returns no nonce and leaves it as it was.
  \<open>nonce_inv\<close> is the specification's invariant \<open>nextNonce \<ge> confirmedNonce\<close>.
\<close>

fun latest_answer :: "(nat \<Rightarrow> 64 word option) \<Rightarrow> nat \<Rightarrow> 64 word option" where
  "latest_answer answers 0 = None"
| "latest_answer answers (Suc i) =
     (case answers i of Some n \<Rightarrow> Some n | None \<Rightarrow> latest_answer answers i)"

definition confirmedNonce :: "(nat \<Rightarrow> 64 word option) \<Rightarrow> NonceManager \<Rightarrow> 64 word option" where
  "confirmedNonce answers nm = latest_answer answers (queries nm)"

definition nonce_inv :: "(nat \<Rightarrow> 64 word option) \<Rightarrow> NonceManager \<Rightarrow> bool" where
  "nonce_inv answers nm =
     (case confirmedNonce answers nm of None \<Rightarrow> True | Some c \<Rightarrow> c \<le> nextNonce nm)"

text \<open>The operations of the manager, and runs of them from a given manager.\<close>

datatype manager_op = OpGetNextNonce | OpResetFromNetwork

fun run_ops :: "chain \<Rightarrow> manager_op list \<Rightarrow> NonceManager \<Rightarrow> 64 word list \<times> NonceManager" where
  "run_ops chain [] nm = ([], nm)"
| "run_ops chain (OpGetNextNonce # ops) nm =
     (case GetNextNonce chain nm of
        (nonce, nm1) \<Rightarrow> (case run_ops chain ops nm1 of (nonces, nm2) \<Rightarrow> (nonce # nonces, nm2)))"
| "run_ops chain (OpResetFromNetwork # ops) nm = run_ops chain ops (ResetFromNetwork chain nm)"

section \<open>Observations on traces, and a concrete environment\<close>

fun is_nonce_query :: "event \<Rightarrow> bool" where
  "is_nonce_query (PendingNonceAt _) = True"
| "is_nonce_query _ = False"

text \<open>The events that hand a transaction to the node.\<close>

fun is_submission :: "event \<Rightarrow> bool" where
  "is_submission (SendTransaction _) = True"
| "is_submission (Increment _) = True"
| "is_submission _ = False"

text \<open>
  An environment in which every call succeeds: Sepolia (network id 11155111), an account
  with pending nonce 5 and one ether, a counter that goes from 41 to 42, a receipt with
  the status given as parameter. The RPC endpoint variables are unset.
\<close>

definition sepolia_env :: "64 word \<Rightarrow> env" where
  "sepolia_env status =
     \<lparr>dotenv_load = None,
      os_getenv = (\<lambda>name.
        if name = ''PRIVATE_KEY'' then ''4c0883a6''
        else if name = ''RECIPIENT_ADDR'' then ''0xF92F''
        else if name = ''CONTRACT_ADDR'' then ''0xAADc''
        else []),
      rpc_dial = (\<lambda>_. None),
      rpc_blockByNumber = (\<lambda>_. Inr \<lparr>blk_number = 5671744, blk_hash = 1, blk_time = 1700000000,
                                  blk_transactions = 3\<rparr>),
      rpc_balanceAt = (\<lambda>_. Inr 1000000000000000000),
      rpc_pendingNonceAt = (\<lambda>_. Inr 5),
      rpc_suggestGasPrice = Inr 20000000000,
      rpc_networkID = Inr 11155111,
      rpc_sendTransaction = (\<lambda>_. None),
      rpc_getCount = (\<lambda>i. Inr (if i = 0 then 41 else 42)),
      rpc_increment = (\<lambda>_. Inr 77),
      rpc_waitMined = (\<lambda>_. Some (Inr \<lparr>rcpt_status = status, rcpt_blockNumber = 9000000,
                                     rcpt_gasUsed = 43000\<rparr>)),
      lib_hexToECDSA = (\<lambda>_. Inr 11),
      lib_pubkeyToAddress = (\<lambda>_. 22),
      lib_hexToAddress = (\<lambda>_. 33),
      lib_signTx = (\<lambda>_ _ _. Inr 44),
      lib_txHash = (\<lambda>_. 55),
      lib_newKeyedTransactorWithChainID = (\<lambda>_ _. Inr 66),
      lib_newCounter = (\<lambda>_. None)\<rparr>"

section \<open>Traces and results of composed runs\<close>

lemma trace_emit [simp]: "trace (emit ev) = [ev]"
  by (simp add: trace_def emit_def)

lemma result_emit [simp]: "result (emit ev) = Ret ()"
  by (simp add: result_def emit_def)

lemma trace_fatal [simp]: "trace (fatal f a) = [Log f a]"
  by (simp add: trace_def fatal_def)

lemma result_fatal [simp]: "result (fatal f a) = Exit"
  by (simp add: result_def fatal_def)

lemma trace_ret [simp]: "trace (ret x) = []"
  by (simp add: trace_def ret_def)

lemma result_ret [simp]: "result (ret x) = Ret x"
  by (simp add: result_def ret_def)

lemma trace_bnd:
  "trace (bnd m f) = (case result m of Ret x \<Rightarrow> trace m @ trace (f x) | Exit \<Rightarrow> trace m | Hang \<Rightarrow> trace m)"
  by (cases m; cases "fst m") (auto simp: trace_def result_def bnd_def split: prod.splits)

lemma result_bnd:
  "result (bnd m f) = (case result m of Ret x \<Rightarrow> result (f x) | Exit \<Rightarrow> Exit | Hang \<Rightarrow> Hang)"
  by (cases m; cases "fst m") (auto simp: trace_def result_def bnd_def split: prod.splits)

lemma trace_andthen:
  "trace (andthen m k) = (case result m of Ret x \<Rightarrow> trace m @ trace k | Exit \<Rightarrow> trace m | Hang \<Rightarrow> trace m)"
  by (simp add: andthen_def trace_bnd)

lemma result_andthen:
  "result (andthen m k) = (case result m of Ret x \<Rightarrow> result k | Exit \<Rightarrow> Exit | Hang \<Rightarrow> Hang)"
  by (simp add: andthen_def result_bnd)

lemma trace_emit_then [simp]: "trace (andthen (emit ev) k) = ev # trace k"
  by (simp add: trace_andthen)

lemma result_emit_then [simp]: "result (andthen (emit ev) k) = result k"
  by (simp add: result_andthen)

lemma trace_orFatal_call [simp]:
  "trace (bnd (orFatal (call ev a) msg) f) =
     (case a of Inl er \<Rightarrow> [ev, Log msg [VErr er]] | Inr x \<Rightarrow> ev # trace (f x))"
  by (cases a) (simp_all add: orFatal_def call_def bnd_def trace_def fatal_def ret_def split: prod.splits)

lemma result_orFatal_call [simp]:
  "result (bnd (orFatal (call ev a) msg) f) =
     (case a of Inl er \<Rightarrow> Exit | Inr x \<Rightarrow> result (f x))"
  by (cases a) (simp_all add: orFatal_def call_def bnd_def result_def fatal_def ret_def split: prod.splits)

lemma trace_orFatal_ret [simp]:
  "trace (bnd (orFatal (ret a) msg) f) =
     (case a of Inl er \<Rightarrow> [Log msg [VErr er]] | Inr x \<Rightarrow> trace (f x))"
  by (cases a) (simp_all add: orFatal_def bnd_def trace_def fatal_def ret_def split: prod.splits)

lemma result_orFatal_ret [simp]:
  "result (bnd (orFatal (ret a) msg) f) =
     (case a of Inl er \<Rightarrow> Exit | Inr x \<Rightarrow> result (f x))"
  by (cases a) (simp_all add: orFatal_def bnd_def result_def fatal_def ret_def split: prod.splits)

lemma trace_orFatal0_call [simp]:
  "trace (andthen (orFatal0 (call ev a) msg) k) =
     (case a of Some er \<Rightarrow> [ev, Log msg [VErr er]] | None \<Rightarrow> ev # trace k)"
  by (cases a) (simp_all add: orFatal0_def andthen_def call_def bnd_def trace_def fatal_def ret_def split: prod.splits)

lemma result_orFatal0_call [simp]:
  "result (andthen (orFatal0 (call ev a) msg) k) =
     (case a of Some er \<Rightarrow> Exit | None \<Rightarrow> result k)"
  by (cases a) (simp_all add: orFatal0_def andthen_def call_def bnd_def result_def fatal_def ret_def split: prod.splits)

lemma result_load_dotenv [simp]: "result (load_dotenv e) = Ret ()"
  by (simp add: load_dotenv_def split: option.splits)

lemma network_load_dotenv [simp]: "filter is_network (trace (load_dotenv e)) = []"
  by (simp add: load_dotenv_def split: option.splits)

lemma trace_dotenv_then [simp]: "trace (andthen (load_dotenv e) k) = trace (load_dotenv e) @ trace k"
  by (simp add: trace_andthen)

lemma result_dotenv_then [simp]: "result (andthen (load_dotenv e) k) = result k"
  by (simp add: result_andthen)

lemma blocks_starts_with_dial: "\<exists>rest. trace (task01_blocks e u) = DialContext u # rest"
  by (simp add: task01_blocks_def split: option.splits)


lemma blocks_no_signing:
  "SignTx t c k \<notin> set (trace (task01_blocks e u))"
  "SendTransaction s \<notin> set (trace (task01_blocks e u))"
  "filter is_nonce_query (trace (task01_blocks e u)) = []"
  by (auto simp: task01_blocks_def Let_def split: sum.splits option.splits)

lemma dotenv_only_logs:
  "ev \<in> set (trace (load_dotenv e)) \<Longrightarrow> \<exists>f. ev = Log f []"
  by (auto simp: load_dotenv_def split: option.splits)

lemma send_sign_facts:
  "SignTx t c k \<in> set (trace (task01_send e pk ra)) \<Longrightarrow>
     rpc_networkID e = Inr c \<and> NetworkID \<in> set (trace (task01_send e pk ra)) \<and>
     rpc_pendingNonceAt e (lib_pubkeyToAddress e k) = Inr (tx_nonce t) \<and>
     PendingNonceAt (lib_pubkeyToAddress e k) \<in> set (trace (task01_send e pk ra)) \<and>
     length (filter is_nonce_query (trace (task01_send e pk ra))) = 1"
  by (auto simp: task01_send_def Let_def split: sum.splits option.splits if_splits)

lemma send_submit_facts:
  "SendTransaction s \<in> set (trace (task01_send e pk ra)) \<Longrightarrow>
     \<exists>t c k. rpc_networkID e = Inr c \<and> lib_signTx e t c k = Inr s \<and>
       SignTx t c k \<in> set (trace (task01_send e pk ra))"
  by (auto simp: task01_send_def Let_def split: sum.splits option.splits if_splits)

lemma send_one_query:
  "length (filter is_nonce_query (trace (task01_send e pk ra))) \<le> 1"
  by (auto simp: task01_send_def Let_def split: sum.splits option.splits if_splits)

lemma dotenv_no_nonce_query [simp]: "filter is_nonce_query (trace (load_dotenv e)) = []"
  by (simp add: load_dotenv_def split: option.splits)

lemma task01_nonce_queries:
  "filter is_nonce_query (trace (task01 e)) = [] \<or>
   filter is_nonce_query (trace (task01 e)) =
     filter is_nonce_query (trace (task01_send e (os_getenv e ''PRIVATE_KEY'') (os_getenv e ''RECIPIENT_ADDR'')))"
  by (simp add: task01_def Let_def trace_andthen blocks_no_signing split: res.splits)

lemma trace_bnd_call [simp]: "trace (bnd (call ev a) f) = ev # trace (f a)"
  by (simp add: bnd_def call_def trace_def split: prod.splits)

lemma result_bnd_call [simp]: "result (bnd (call ev a) f) = result (f a)"
  by (simp add: bnd_def call_def result_def split: prod.splits)

lemma trace_orFatal_waitMined [simp]:
  "trace (bnd (orFatal (waitMined e s) msg) f) =
     (case rpc_waitMined e s of
        None \<Rightarrow> [WaitMined s]
      | Some (Inl er) \<Rightarrow> [WaitMined s, Log msg [VErr er]]
      | Some (Inr r) \<Rightarrow> WaitMined s # trace (f r))"
  by (simp add: waitMined_def orFatal_def call_def bnd_def trace_def fatal_def ret_def
      split: option.splits sum.splits prod.splits)

lemma result_orFatal_waitMined [simp]:
  "result (bnd (orFatal (waitMined e s) msg) f) =
     (case rpc_waitMined e s of
        None \<Rightarrow> Hang
      | Some (Inl er) \<Rightarrow> Exit
      | Some (Inr r) \<Rightarrow> result (f r))"
  by (simp add: waitMined_def orFatal_def call_def bnd_def result_def fatal_def ret_def
      split: option.splits sum.splits prod.splits)

lemma trace_wait:
  "trace (task02_wait e s cb) =
     Log ''Waiting for transaction to be confirmed...'' [] # WaitMined s #
     (case rpc_waitMined e s of
        None \<Rightarrow> []
      | Some (Inl er) \<Rightarrow> [Log ''Failed to wait for transaction confirmation: %v'' [VErr er]]
      | Some (Inr r) \<Rightarrow>
          if rcpt_status r = 1
          then Log ''Transaction confirmed successfully in block: %d''
                 [VU64 (word_of_int (rcpt_blockNumber r))] #
               Log ''Gas used: %d'' [VU64 (rcpt_gasUsed r)] # trace (task02_verify e s cb)
          else [Log ''Transaction failed with status: %d'' [VU64 (rcpt_status r)]])"
  by (simp add: task02_wait_def trace_andthen result_andthen split: option.splits sum.splits)

lemma result_wait:
  "result (task02_wait e s cb) =
     (case rpc_waitMined e s of
        None \<Rightarrow> Hang
      | Some (Inl er) \<Rightarrow> Exit
      | Some (Inr r) \<Rightarrow> if rcpt_status r = 1 then result (task02_verify e s cb) else Exit)"
  by (simp add: task02_wait_def trace_andthen result_andthen split: option.splits sum.splits)

lemma dotenv_no_call [simp]:
  "WaitMined s \<notin> set (trace (load_dotenv e))"
  "Increment a \<notin> set (trace (load_dotenv e))"
  "NewKeyedTransactorWithChainID k c \<notin> set (trace (load_dotenv e))"
  "SignTx t c k \<notin> set (trace (load_dotenv e))"
  "SendTransaction s \<notin> set (trace (load_dotenv e))"
  "filter is_submission (trace (load_dotenv e)) = []"
  by (auto simp: load_dotenv_def split: option.splits)

lemma verify_no_call [simp]:
  "WaitMined s' \<notin> set (trace (task02_verify e s cb))"
  "Increment a \<notin> set (trace (task02_verify e s cb))"
  "NewKeyedTransactorWithChainID k c \<notin> set (trace (task02_verify e s cb))"
  "Log ''Transaction failed with status: %d'' args \<notin> set (trace (task02_verify e s cb))"
  "filter is_submission (trace (task02_verify e s cb)) = []"
  by (auto simp: task02_verify_def Let_def split: sum.splits)

lemma waitMined_in_wait [simp]: "WaitMined s \<in> set (trace (task02_wait e s' cb)) \<longleftrightarrow> s = s'"
proof (cases "rpc_waitMined e s'")
  case None
  then show ?thesis by (auto simp: trace_wait)
next
  case (Some a)
  then show ?thesis by (cases a) (auto simp: trace_wait)
qed

lemma contract_reaches_wait:
  assumes "WaitMined s \<in> set (trace (task02_contract e k c ca))"
  shows "\<exists>a cb. lib_newKeyedTransactorWithChainID e k c = Inr a \<and> rpc_increment e a = Inr s \<and>
           lib_newCounter e (lib_hexToAddress e ca) = None \<and> rpc_getCount e 0 = Inr cb \<and>
           result (task02_contract e k c ca) = result (task02_wait e s cb) \<and>
           trace (task02_contract e k c ca) =
             [NewKeyedTransactorWithChainID k c, Log ''Authorized transactor created successfully'' [],
              NewCounter (lib_hexToAddress e ca), Log ''Contract instance created successfully'' [],
              GetCount, Log ''Counter value BEFORE increment: %d'' [VBig cb],
              Increment a, Log ''Counter increment transaction sent: %s'' [VHash (lib_txHash e s)]]
             @ trace (task02_wait e s cb)"
  using assms
  by (simp add: task02_contract_def Let_def split: sum.splits option.splits)

lemma task02_reaches_contract:
  assumes "ev \<in> set (trace (task02 e))" and "\<not> (\<exists>f a. ev = Log f a)" and "\<not> (\<exists>u. ev = DialContext u)"
    and "ev \<noteq> NetworkID"
  shows "\<exists>u k c. rpc_dial e u = None \<and>
           u = (if os_getenv e ''RPC_URL'' = [] then default_rpc else os_getenv e ''RPC_URL'') \<and>
           lib_hexToECDSA e (os_getenv e ''PRIVATE_KEY'') = Inr k \<and> rpc_networkID e = Inr c \<and>
           ev \<in> set (trace (task02_contract e k c (os_getenv e ''CONTRACT_ADDR''))) \<and>
           result (task02 e) = result (task02_contract e k c (os_getenv e ''CONTRACT_ADDR'')) \<and>
           trace (task02 e) =
             trace (load_dotenv e) @
             [DialContext u, Log ''Connected to Sepolia successfully'' [],
              Log ''Private key loaded successfully'' [], NetworkID,
              Log ''Connected to Sepolia network: %s'' [VBig c],
              Log ''Recipient address:'' [VStr (os_getenv e ''RECIPIENT_ADDR'')],
              Log ''Contract address:'' [VStr (os_getenv e ''CONTRACT_ADDR'')]]
             @ trace (task02_contract e k c (os_getenv e ''CONTRACT_ADDR''))"
  using assms
  by (auto simp: task02_def Let_def dest: dotenv_only_logs split: sum.splits option.splits if_splits)

lemma wait_no_submission [simp]: "filter is_submission (trace (task02_wait e s cb)) = []"
proof (cases "rpc_waitMined e s")
  case None
  then show ?thesis by (simp add: trace_wait)
next
  case (Some a)
  then show ?thesis by (cases a) (simp_all add: trace_wait)
qed

lemma wait_no_transactor [simp]:
  "NewKeyedTransactorWithChainID k c \<notin> set (trace (task02_wait e s cb))"
proof (cases "rpc_waitMined e s")
  case None
  then show ?thesis by (simp add: trace_wait)
next
  case (Some x)
  then show ?thesis by (cases x) (simp_all add: trace_wait)
qed

lemma wait_no_increment [simp]:
  "Increment a \<notin> set (trace (task02_wait e s cb))"
proof (cases "rpc_waitMined e s")
  case None
  then show ?thesis by (simp add: trace_wait)
next
  case (Some x)
  then show ?thesis by (cases x) (simp_all add: trace_wait)
qed

lemma contract_submissions:
  "length (filter is_submission (trace (task02_contract e k c ca))) \<le> 1"
  by (simp add: task02_contract_def Let_def split: sum.split option.split)

lemma task02_submissions: "length (filter is_submission (trace (task02 e))) \<le> 1"
  using contract_submissions [of e]
  by (auto simp: task02_def Let_def split: sum.split option.split)

lemma contract_transactor:
  "NewKeyedTransactorWithChainID k' c' \<in> set (trace (task02_contract e k c ca)) \<Longrightarrow> k' = k \<and> c' = c"
  by (simp add: task02_contract_def Let_def split: sum.splits option.splits)

lemma contract_increment:
  "Increment a \<in> set (trace (task02_contract e k c ca)) \<Longrightarrow>
     lib_newKeyedTransactorWithChainID e k c = Inr a \<and>
     NewKeyedTransactorWithChainID k c \<in> set (trace (task02_contract e k c ca))"
  by (simp add: task02_contract_def Let_def split: sum.splits option.splits)

lemma task01_reaches_send:
  assumes "ev \<in> set (trace (task01 e))" and "(\<exists>t c k. ev = SignTx t c k) \<or> (\<exists>s. ev = SendTransaction s)"
  shows "ev \<in> set (trace (task01_send e (os_getenv e ''PRIVATE_KEY'') (os_getenv e ''RECIPIENT_ADDR''))) \<and>
         set (trace (task01_send e (os_getenv e ''PRIVATE_KEY'') (os_getenv e ''RECIPIENT_ADDR'')))
           \<subseteq> set (trace (task01 e)) \<and>
         filter is_nonce_query (trace (task01 e)) =
           filter is_nonce_query (trace (task01_send e (os_getenv e ''PRIVATE_KEY'') (os_getenv e ''RECIPIENT_ADDR'')))"
  using assms
  by (auto simp: task01_def Let_def trace_andthen blocks_no_signing split: if_splits res.splits)

lemma task01_one_nonce_query: "length (filter is_nonce_query (trace (task01 e))) \<le> 1"
  using task01_nonce_queries [of e] send_one_query [of e] by auto

lemma send_submissions:
  "length (filter is_submission (trace (task01_send e pk ra))) \<le> 1"
  by (simp add: task01_send_def Let_def split: sum.split option.split)

lemma blocks_no_submission [simp]: "filter is_submission (trace (task01_blocks e u)) = []"
  by (simp add: task01_blocks_def Let_def split: sum.split option.split)

lemma task01_submissions: "length (filter is_submission (trace (task01 e))) \<le> 1"
  using send_submissions [of e "os_getenv e ''PRIVATE_KEY''" "os_getenv e ''RECIPIENT_ADDR''"]
  by (simp add: task01_def Let_def trace_andthen split: res.split)



lemmas flow_defs =
  task01_def task01_blocks_def task01_send_def task02_def task02_contract_def
  task02_wait_def task02_verify_def waitMined_def load_dotenv_def Let_def

lemmas run_defs =
  bnd_def andthen_def orFatal_def orFatal0_def call_def emit_def ret_def fatal_def
  trace_def result_def

lemma sepolia_answers:
  "rpc_networkID (sepolia_env st) = Inr 11155111"
  "rpc_pendingNonceAt (sepolia_env st) a = Inr 5"
  "lib_pubkeyToAddress (sepolia_env st) k = 22"
  "lib_signTx (sepolia_env st) t c k = Inr 44"
  "lib_newKeyedTransactorWithChainID (sepolia_env st) k c = Inr 66"
  "rpc_increment (sepolia_env st) au = Inr 77"
  "rpc_waitMined (sepolia_env st) s =
     Some (Inr \<lparr>rcpt_status = st, rcpt_blockNumber = 9000000, rcpt_gasUsed = 43000\<rparr>)"
  by (simp_all add: sepolia_env_def)

lemma task01_sepolia:
  "trace (task01 (sepolia_env st)) =
     [DialContext default_rpc,
      Print ''Connected to Sepolia network'' [], BlockByNumber None,
      Print ''Latest Block Number: %d'' [VU64 5671744],
      BlockByNumber (Some 5671744), Print ''Block Number: %d'' [VU64 5671744],
      Print ''Block Hash: %s'' [VHash 1],
      Print ''Block Time: %d'' [VU64 1700000000],
      Print ''Block Transactions: %d'' [VLen 3],
      Print ''=== Preparing Transaction ==='' [],
      Print ''From Address: %s'' [VAddr 22],
      Print ''To Address: %s'' [VStr ''0xF92F''], BalanceAt 22,
      Print ''Account Balance: %s ETH'' [VEth 1000000000000000000],
      PendingNonceAt 22, Print ''Nonce: %d'' [VU64 5], SuggestGasPrice,
      Print ''Transfer Amount: %s ETH'' [VEth 1000000000000000],
      Print ''Gas Price: %s Gwei'' [VGwei 20000000000],
      Print ''Gas Limit: %d'' [VU64 21000],
      Print ''Total Cost (including gas): %s ETH'' [VEth 1420000000000000],
      NetworkID,
      SignTx \<lparr>tx_nonce = 5, tx_to = 33, tx_amount = 1000000000000000, tx_gasLimit = 21000,
              tx_gasPrice = 20000000000, tx_data = []\<rparr> 11155111 11,
      SendTransaction 44, Print ''=== Transaction Sent Successfully ==='' [],
      Print ''Transaction Hash: %s'' [VHash 55],
      Print ''View on Etherscan: https://sepolia.etherscan.io/tx/%s'' [VHash 55],
      Print ''From: %s'' [VAddr 22], Print ''To: %s'' [VAddr 33],
      Print ''Amount: %s ETH'' [VEth 1000000000000000],
      Print ''Gas Price: %s Gwei'' [VGwei 20000000000],
      Print ''Note: It may take 15-30 seconds for the transaction to be confirmed on the network.'' [],
      Print ''Check the Etherscan link above to monitor the transaction status.'' []]"
  by (simp add: flow_defs run_defs sepolia_env_def)

lemma task02_sepolia_confirmed:
  "trace (task02 (sepolia_env 1)) =
     [DialContext default_rpc,
      Log ''Connected to Sepolia successfully'' [],
      Log ''Private key loaded successfully'' [], NetworkID,
      Log ''Connected to Sepolia network: %s'' [VBig 11155111],
      Log ''Recipient address:'' [VStr ''0xF92F''],
      Log ''Contract address:'' [VStr ''0xAADc''],
      NewKeyedTransactorWithChainID 11 11155111,
      Log ''Authorized transactor created successfully'' [], NewCounter 33,
      Log ''Contract instance created successfully'' [], GetCount,
      Log ''Counter value BEFORE increment: %d'' [VBig 41], Increment 66,
      Log ''Counter increment transaction sent: %s'' [VHash 55],
      Log ''Waiting for transaction to be confirmed...'' [], WaitMined 77,
      Log ''Transaction confirmed successfully in block: %d'' [VU64 9000000],
      Log ''Gas used: %d'' [VU64 43000],
      Log ''Waiting for state synchronization...'' [], Sleep 2, GetCount,
      Log ''Current counter value after confirmation: %d'' [VBig 42],
      Log (CHR 0xE2 # CHR 0x9C # CHR 0x85 # '' SUCCESS: Counter incremented from %d to %d'')
        [VBig 41, VBig 42]]"
  by (simp add: flow_defs run_defs sepolia_env_def)

lemma verify_network:
  "filter is_network (trace (task02_verify e s cb)) \<noteq> []"
  "last (filter is_network (trace (task02_verify e s cb))) = GetCount"
  by (simp_all add: task02_verify_def Let_def split: sum.split)

lemma verify_no_confirm_line [simp]:
  "Log ''Transaction confirmed successfully in block: %d'' args \<notin> set (trace (task02_verify e s cb))"
  by (simp add: task02_verify_def Let_def split: sum.split)

lemma dotenv_no_status_line [simp]:
  "Log ''Transaction confirmed successfully in block: %d'' args \<notin> set (trace (load_dotenv e))"
  "Log ''Transaction failed with status: %d'' args \<notin> set (trace (load_dotenv e))"
  by (simp_all add: load_dotenv_def split: option.split)

lemma task02_reaches_wait:
  assumes "WaitMined s \<in> set (trace (task02 e))"
  shows "\<exists>pre u a cb.
           trace (task02 e) = pre @ trace (task02_wait e s cb) \<and>
           result (task02 e) = result (task02_wait e s cb) \<and>
           rpc_increment e a = Inr s \<and>
           filter is_network pre = [DialContext u, NetworkID, GetCount, Increment a] \<and>
           filter is_submission pre = [Increment a] \<and>
           Log ''Counter increment transaction sent: %s'' [VHash (lib_txHash e s)] \<in> set pre \<and>
           (\<forall>args. Log ''Transaction confirmed successfully in block: %d'' args \<notin> set pre) \<and>
           (\<forall>args. Log ''Transaction failed with status: %d'' args \<notin> set pre)"
proof -
  from task02_reaches_contract [OF assms] obtain u k c where
    A: "WaitMined s \<in> set (trace (task02_contract e k c (os_getenv e ''CONTRACT_ADDR'')))"
       "result (task02 e) = result (task02_contract e k c (os_getenv e ''CONTRACT_ADDR''))"
       "trace (task02 e) =
             trace (load_dotenv e) @
             [DialContext u, Log ''Connected to Sepolia successfully'' [],
              Log ''Private key loaded successfully'' [], NetworkID,
              Log ''Connected to Sepolia network: %s'' [VBig c],
              Log ''Recipient address:'' [VStr (os_getenv e ''RECIPIENT_ADDR'')],
              Log ''Contract address:'' [VStr (os_getenv e ''CONTRACT_ADDR'')]]
             @ trace (task02_contract e k c (os_getenv e ''CONTRACT_ADDR''))"
    by auto
  from contract_reaches_wait [OF A(1)] obtain a cb where
    B: "rpc_increment e a = Inr s"
       "result (task02_contract e k c (os_getenv e ''CONTRACT_ADDR'')) = result (task02_wait e s cb)"
       "trace (task02_contract e k c (os_getenv e ''CONTRACT_ADDR'')) =
             [NewKeyedTransactorWithChainID k c, Log ''Authorized transactor created successfully'' [],
              NewCounter (lib_hexToAddress e (os_getenv e ''CONTRACT_ADDR'')),
              Log ''Contract instance created successfully'' [],
              GetCount, Log ''Counter value BEFORE increment: %d'' [VBig cb],
              Increment a, Log ''Counter increment transaction sent: %s'' [VHash (lib_txHash e s)]]
             @ trace (task02_wait e s cb)"
    by auto
  define pre where "pre =
     trace (load_dotenv e) @
             [DialContext u, Log ''Connected to Sepolia successfully'' [],
              Log ''Private key loaded successfully'' [], NetworkID,
              Log ''Connected to Sepolia network: %s'' [VBig c],
              Log ''Recipient address:'' [VStr (os_getenv e ''RECIPIENT_ADDR'')],
              Log ''Contract address:'' [VStr (os_getenv e ''CONTRACT_ADDR'')],
              NewKeyedTransactorWithChainID k c, Log ''Authorized transactor created successfully'' [],
              NewCounter (lib_hexToAddress e (os_getenv e ''CONTRACT_ADDR'')),
              Log ''Contract instance created successfully'' [],
              GetCount, Log ''Counter value BEFORE increment: %d'' [VBig cb],
              Increment a, Log ''Counter increment transaction sent: %s'' [VHash (lib_txHash e s)]]"
  have 1: "trace (task02 e) = pre @ trace (task02_wait e s cb)"
    by (simp add: A(3) B(3) pre_def)
  have 2: "result (task02 e) = result (task02_wait e s cb)"
    by (simp add: A(2) B(2))
  have 3: "filter is_network pre = [DialContext u, NetworkID, GetCount, Increment a]"
    by (simp add: pre_def)
  have 4: "filter is_submission pre = [Increment a]"
    by (simp add: pre_def)
  have 5: "Log ''Counter increment transaction sent: %s'' [VHash (lib_txHash e s)] \<in> set pre"
    by (simp add: pre_def)
  have 6: "\<forall>args. Log ''Transaction confirmed successfully in block: %d'' args \<notin> set pre"
    by (simp add: pre_def)
  have 7: "\<forall>args. Log ''Transaction failed with status: %d'' args \<notin> set pre"
    by (simp add: pre_def)
  from 1 2 3 4 5 6 7 B(1) show ?thesis by blast
qed

lemma send_sign_query:
  "SignTx t c k \<in> set (trace (task01_send e pk ra)) \<Longrightarrow>
     filter is_nonce_query (trace (task01_send e pk ra)) = [PendingNonceAt (lib_pubkeyToAddress e k)]"
  by (auto simp: task01_send_def Let_def split: sum.splits option.splits if_splits)

lemma send_rejected:
  "SendTransaction s \<in> set (trace (task01_send e pk ra)) \<Longrightarrow> rpc_sendTransaction e s = Some er \<Longrightarrow>
     result (task01_send e pk ra) = Exit \<and>
     last (trace (task01_send e pk ra)) = Log ''Failed to send transaction: %v'' [VErr er]"
  by (auto simp: task01_send_def Let_def split: sum.splits option.splits if_splits)

lemma task01_runs_send:
  assumes "ev \<in> set (trace (task01 e))" and "(\<exists>t c k. ev = SignTx t c k) \<or> (\<exists>s. ev = SendTransaction s)"
  shows "result (task01 e) =
           result (task01_send e (os_getenv e ''PRIVATE_KEY'') (os_getenv e ''RECIPIENT_ADDR'')) \<and>
         (\<exists>pre. trace (task01 e) =
           pre @ trace (task01_send e (os_getenv e ''PRIVATE_KEY'') (os_getenv e ''RECIPIENT_ADDR'')))"
  using assms
  by (auto simp: task01_def Let_def trace_andthen result_andthen blocks_no_signing
      split: if_splits res.splits)

lemma task02_sepolia_waits:
  "WaitMined 77 \<in> set (trace (task02 ((sepolia_env st)\<lparr>rpc_waitMined := w\<rparr>)))"
  by (simp add: task02_def task02_contract_def Let_def sepolia_env_def)

lemma task01_sepolia_rejected:
  "SendTransaction 44 \<in> set (trace (task01 ((sepolia_env st)\<lparr>rpc_sendTransaction := w\<rparr>)))"
  by (simp add: flow_defs run_defs sepolia_env_def split: option.split)

section \<open>Arithmetic of the nonce counter\<close>

lemma GetNextNonce_warm:
  "nextNonce nm \<noteq> 0 \<Longrightarrow> GetNextNonce chain nm = (nextNonce nm, nm\<lparr>nextNonce := nextNonce nm + 1\<rparr>)"
  by (simp add: GetNextNonce_def)

lemma GetNextNonce_cold:
  "nextNonce nm = 0 \<Longrightarrow>
     GetNextNonce chain nm =
       (chain (queries nm), nm\<lparr>nextNonce := chain (queries nm) + 1, queries := Suc (queries nm)\<rparr>)"
  by (simp add: GetNextNonce_def)

lemma word64_le_succ: "(x :: 64 word) \<noteq> - 1 \<Longrightarrow> x \<le> x + 1"
  by (meson inc_less_eq_triv_imp nle_le)

lemma unat_start_plus:
  assumes "unat (start :: 64 word) + n \<le> 2 ^ 64" and "i < n"
  shows "unat (start + of_nat i) = unat start + i"
proof -
  have i: "i < 2 ^ 64" using assms by simp
  then have "unat (of_nat i :: 64 word) = i" by (simp add: unat_of_nat)
  moreover have "unat start + i < 2 ^ 64" using assms by simp
  ultimately show ?thesis by (simp add: unat_add_lem [THEN iffD1])
qed

lemma batch_nonces_unat:
  assumes "unat start + n \<le> 2 ^ 64"
  shows "map unat (batch_nonces start n) = [unat start ..< unat start + n]"
proof -
  have "map unat (batch_nonces start n) = map (\<lambda>i. unat start + i) [0..<n]"
    using assms by (simp add: batch_nonces_def unat_start_plus)
  also have "\<dots> = [unat start ..< unat start + n]"
    by (simp add: map_add_upt add.commute)
  finally show ?thesis .
qed

lemma batch_nonces_distinct:
  assumes "unat start + n \<le> 2 ^ 64"
  shows "distinct (batch_nonces start n)"
proof -
  have "distinct (map unat (batch_nonces start n))"
    by (simp add: batch_nonces_unat [OF assms])
  then show ?thesis by (simp add: distinct_map)
qed

lemma batch_nonces_append:
  "batch_nonces start n @ batch_nonces (start + of_nat n) m = batch_nonces start (n + m)"
proof -
  have "batch_nonces (start + of_nat n) m = map (\<lambda>i. start + of_nat i) [n..<n + m]"
    by (simp add: batch_nonces_def map_add_upt [symmetric] add.assoc add.commute)
  then show ?thesis
    by (simp add: batch_nonces_def upt_add_eq_append [of 0 n m, simplified])
qed

lemma batch_nonces_Suc:
  "batch_nonces start (Suc n) = start # batch_nonces (start + 1) n"
  using batch_nonces_append [of start 1 n] by (simp add: batch_nonces_def)

lemma word64_succ_nonzero:
  assumes "unat (x :: 64 word) + 1 < 2 ^ 64"
  shows "x + 1 \<noteq> 0" and "unat (x + 1) = unat x + 1"
proof -
  from assms show u: "unat (x + 1) = unat x + 1"
    by (simp add: unat_add_lem [THEN iffD1])
  then show "x + 1 \<noteq> 0" by (metis Suc_eq_plus1 nat.simps(3) unat_0)
qed

lemma usage_loop_warm:
  "nextNonce nm \<noteq> 0 \<Longrightarrow> unat (nextNonce nm) + n \<le> 2 ^ 64 \<Longrightarrow>
     usage_loop chain (replicate n True) nm =
       (batch_nonces (nextNonce nm) n, nm\<lparr>nextNonce := nextNonce nm + of_nat n\<rparr>)"
proof (induction n arbitrary: nm)
  case 0
  then show ?case by (simp add: batch_nonces_def)
next
  case (Suc n)
  let ?nm1 = "nm\<lparr>nextNonce := nextNonce nm + 1\<rparr>"
  have g: "GetNextNonce chain nm = (nextNonce nm, ?nm1)"
    using Suc.prems(1) by (rule GetNextNonce_warm)
  show ?case
  proof (cases n)
    case 0
    then show ?thesis by (simp add: g batch_nonces_def)
  next
    case (Suc m)
    with Suc.prems(2) have lt: "unat (nextNonce nm) + 1 < 2 ^ 64" by simp
    from word64_succ_nonzero [OF lt] Suc.prems(2)
    have "nextNonce ?nm1 \<noteq> 0" and "unat (nextNonce ?nm1) + n \<le> 2 ^ 64" by simp_all
    from Suc.IH [OF this] show ?thesis
      by (simp add: g batch_nonces_Suc add.assoc)
  qed
qed

lemma usage_loop_fresh:
  assumes "unat (chain 0) + n \<le> 2 ^ 64"
  shows "fst (usage_loop chain (replicate n True) new_manager) = batch_nonces (chain 0) n"
    and "queries (snd (usage_loop chain (replicate n True) new_manager)) = (if n = 0 then 0 else 1)"
proof -
  let ?nm1 = "new_manager\<lparr>nextNonce := chain 0 + 1, queries := Suc 0\<rparr>"
  have g: "GetNextNonce chain new_manager = (chain 0, ?nm1)"
    using GetNextNonce_cold [of new_manager chain] by (simp add: new_manager_def)
  have "fst (usage_loop chain (replicate n True) new_manager) = batch_nonces (chain 0) n \<and>
        queries (snd (usage_loop chain (replicate n True) new_manager)) = (if n = 0 then 0 else 1)"
  proof (cases n)
    case 0
    then show ?thesis by (simp add: batch_nonces_def new_manager_def)
  next
    case (Suc m)
    show ?thesis
    proof (cases m)
      case 0
      with Suc show ?thesis by (simp add: g batch_nonces_def)
    next
      case (Suc l)
      with \<open>n = Suc m\<close> assms have lt: "unat (chain 0) + 1 < 2 ^ 64" by simp
      from word64_succ_nonzero [OF lt] assms \<open>n = Suc m\<close>
      have "nextNonce ?nm1 \<noteq> 0" and "unat (nextNonce ?nm1) + m \<le> 2 ^ 64" by simp_all
      from usage_loop_warm [OF this, of chain] \<open>n = Suc m\<close> show ?thesis
        by (simp add: g batch_nonces_Suc)
    qed
  qed
  then show "fst (usage_loop chain (replicate n True) new_manager) = batch_nonces (chain 0) n"
    and "queries (snd (usage_loop chain (replicate n True) new_manager)) = (if n = 0 then 0 else 1)"
    by simp_all
qed

lemma run_ops_GetNextNonce:
  "fst (run_ops chain (OpGetNextNonce # ops) nm) =
     fst (GetNextNonce chain nm) # fst (run_ops chain ops (snd (GetNextNonce chain nm)))"
  "snd (run_ops chain (OpGetNextNonce # ops) nm) =
     snd (run_ops chain ops (snd (GetNextNonce chain nm)))"
  by (simp_all split: prod.split)

lemma unat_range_bound:
  assumes "map unat (ws :: 64 word list) = [a..<a + n]" and "0 < n"
  shows "a + n \<le> 2 ^ 64"
proof -
  from assms have len: "length ws = n"
    by (metis add_diff_cancel_left' length_map length_upt)
  with assms(2) have "n - 1 < length ws" by simp
  then have "unat (ws ! (n - 1)) = map unat ws ! (n - 1)" by simp
  also have "\<dots> = a + (n - 1)" using assms by simp
  finally have "unat (ws ! (n - 1)) = a + (n - 1)" .
  moreover have "unat (ws ! (n - 1)) < 2 ^ 64"
    using unsigned_less [of "ws ! (n - 1)"] by simp
  ultimately show ?thesis using assms(2) by simp
qed

lemma batch_nonces_range_iff:
  "0 < n \<Longrightarrow>
     (map unat (batch_nonces start n) = [unat start ..< unat start + n]) = (unat start + n \<le> 2 ^ 64)"
  using unat_range_bound [of "batch_nonces start n" "unat start" n] batch_nonces_unat [of start n]
  by blast

lemma usage_loop_fresh_state:
  assumes "unat (chain 0) + n \<le> 2 ^ 64" and "0 < n"
  shows "snd (usage_loop chain (replicate n True) new_manager) =
           \<lparr>nextNonce = chain 0 + of_nat n, queries = 1\<rparr>"
proof -
  let ?nm1 = "new_manager\<lparr>nextNonce := chain 0 + 1, queries := Suc 0\<rparr>"
  have g: "GetNextNonce chain new_manager = (chain 0, ?nm1)"
    using GetNextNonce_cold [of new_manager chain] by (simp add: new_manager_def)
  from assms(2) obtain m where n: "n = Suc m" by (cases n) auto
  show ?thesis
  proof (cases m)
    case 0
    with n show ?thesis by (simp add: g)
  next
    case (Suc l)
    with n assms have lt: "unat (chain 0) + 1 < 2 ^ 64" by simp
    from word64_succ_nonzero [OF lt] assms n
    have "nextNonce ?nm1 \<noteq> 0" and "unat (nextNonce ?nm1) + m \<le> 2 ^ 64" by simp_all
    from usage_loop_warm [OF this, of chain] n show ?thesis
      by (simp add: g add.assoc)
  qed
qed

lemma unat_plus_of_nat:
  assumes "unat (x :: 64 word) + j < 2 ^ 64"
  shows "unat (x + of_nat j) = unat x + j" and "0 < j \<Longrightarrow> x + of_nat j \<noteq> 0"
proof -
  have "unat (of_nat j :: 64 word) = j" using assms by (simp add: unat_of_nat)
  with assms show u: "unat (x + of_nat j) = unat x + j"
    by (simp add: unat_add_lem [THEN iffD1])
  assume "0 < j"
  with u show "x + of_nat j \<noteq> 0" by (metis add_is_0 less_numeral_extra(3) unat_0)
qed

lemma usage_loop_second_batch:
  assumes "0 < j" and "unat (chain 0) + (j + k) \<le> 2 ^ 64"
  shows "usage_loop chain (replicate k True) (snd (usage_loop chain (replicate j True) new_manager)) =
           (batch_nonces (chain 0 + of_nat j) k,
            \<lparr>nextNonce = chain 0 + of_nat j + of_nat k, queries = 1\<rparr>)"
proof (cases k)
  case 0
  from assms have "unat (chain 0) + j \<le> 2 ^ 64" by simp
  with usage_loop_fresh_state [of chain j] assms(1) 0 show ?thesis
    by (simp add: batch_nonces_def)
next
  case (Suc l)
  with assms have a: "unat (chain 0) + j \<le> 2 ^ 64" and lt: "unat (chain 0) + j < 2 ^ 64"
    by simp_all
  let ?nm = "\<lparr>nextNonce = chain 0 + of_nat j, queries = 1\<rparr>"
  have st: "snd (usage_loop chain (replicate j True) new_manager) = ?nm"
    using usage_loop_fresh_state [of chain j] a assms(1) by simp
  from unat_plus_of_nat [OF lt] assms
  have "nextNonce ?nm \<noteq> 0" and "unat (nextNonce ?nm) + k \<le> 2 ^ 64" by simp_all
  from usage_loop_warm [OF this, of chain] show ?thesis by (simp add: st)
qed

lemma discard_error_Some: "answers i = Some v \<Longrightarrow> discard_error answers i = v"
  by (simp add: discard_error_def)

lemma queries_GetNextNonce: "queries nm \<le> queries (snd (GetNextNonce chain nm))"
  by (simp add: GetNextNonce_def Let_def)

lemma queries_ResetFromNetwork: "queries (ResetFromNetwork chain nm) = Suc (queries nm)"
  by (simp add: ResetFromNetwork_def)

lemma run_ops_ResetFromNetwork:
  "fst (run_ops chain (OpResetFromNetwork # ops) nm) = fst (run_ops chain ops (ResetFromNetwork chain nm))"
  "snd (run_ops chain (OpResetFromNetwork # ops) nm) = snd (run_ops chain ops (ResetFromNetwork chain nm))"
  by simp_all

lemma queries_run_ops: "queries nm \<le> queries (snd (run_ops chain ops nm))"
proof (induction ops arbitrary: nm)
  case Nil
  then show ?case by simp
next
  case (Cons op ops)
  show ?case
  proof (cases op)
    case OpGetNextNonce
    from Cons.IH [of "snd (GetNextNonce chain nm)"] queries_GetNextNonce [of nm chain]
    show ?thesis unfolding OpGetNextNonce run_ops_GetNextNonce by (rule order_trans [rotated])
  next
    case OpResetFromNetwork
    from Cons.IH [of "ResetFromNetwork chain nm"]
    show ?thesis unfolding OpResetFromNetwork run_ops_ResetFromNetwork
      by (simp add: queries_ResetFromNetwork)
  qed
qed

lemma nonce_inv_GetNextNonce:
  assumes "nonce_inv answers nm" and "fst (GetNextNonce (discard_error answers) nm) \<noteq> - 1"
    and "nextNonce nm = 0 \<longrightarrow> answers (queries nm) \<noteq> None"
  shows "nonce_inv answers (snd (GetNextNonce (discard_error answers) nm))"
proof (cases "nextNonce nm = 0")
  case True
  with assms(3) obtain v where v: "answers (queries nm) = Some v" by auto
  from GetNextNonce_cold [OF True, of "discard_error answers"] discard_error_Some [of answers "queries nm" v] v
  have g: "GetNextNonce (discard_error answers) nm =
             (v, nm\<lparr>nextNonce := v + 1, queries := Suc (queries nm)\<rparr>)" by simp
  with assms(2) have "v \<noteq> - 1" by simp
  then have "v \<le> v + 1" by (rule word64_le_succ)
  then show ?thesis by (simp add: g nonce_inv_def confirmedNonce_def v)
next
  case False
  from GetNextNonce_warm [OF False, of "discard_error answers"]
  have g: "GetNextNonce (discard_error answers) nm = (nextNonce nm, nm\<lparr>nextNonce := nextNonce nm + 1\<rparr>)" .
  with assms(2) have "nextNonce nm \<le> nextNonce nm + 1" by (simp add: word64_le_succ)
  with assms(1) show ?thesis
    by (auto simp: g nonce_inv_def confirmedNonce_def split: option.splits)
qed

lemma nonce_inv_ResetFromNetwork:
  "answers (queries nm) = Some v \<Longrightarrow>
     nextNonce (ResetFromNetwork (discard_error answers) nm) = v \<and>
     confirmedNonce answers (ResetFromNetwork (discard_error answers) nm) = Some v \<and>
     nonce_inv answers (ResetFromNetwork (discard_error answers) nm)"
  by (simp add: ResetFromNetwork_def nonce_inv_def confirmedNonce_def discard_error_Some)

lemma nonce_inv_run_ops:
  "nonce_inv answers nm \<Longrightarrow>
   \<forall>i. queries nm \<le> i \<and> i < queries (snd (run_ops (discard_error answers) ops nm)) \<longrightarrow>
       answers i \<noteq> None \<Longrightarrow>
   \<forall>r \<in> set (fst (run_ops (discard_error answers) ops nm)). r \<noteq> - 1 \<Longrightarrow>
     nonce_inv answers (snd (run_ops (discard_error answers) ops nm))"
proof (induction ops arbitrary: nm)
  case Nil
  then show ?case by simp
next
  case (Cons op ops)
  let ?c = "discard_error answers"
  show ?case
  proof (cases op)
    case OpGetNextNonce
    let ?nm1 = "snd (GetNextNonce ?c nm)"
    from Cons.prems(3) have r: "fst (GetNextNonce ?c nm) \<noteq> - 1"
      and rest: "\<forall>r \<in> set (fst (run_ops ?c ops ?nm1)). r \<noteq> - 1"
      unfolding OpGetNextNonce run_ops_GetNextNonce by simp_all
    have fin: "snd (run_ops ?c (op # ops) nm) = snd (run_ops ?c ops ?nm1)"
      unfolding OpGetNextNonce run_ops_GetNextNonce ..
    have q: "nextNonce nm = 0 \<longrightarrow> answers (queries nm) \<noteq> None"
    proof
      assume z: "nextNonce nm = 0"
      from GetNextNonce_cold [OF z, of ?c] have "queries ?nm1 = Suc (queries nm)" by simp
      with queries_run_ops [of ?nm1 ?c ops] have "queries nm < queries (snd (run_ops ?c ops ?nm1))"
        by simp
      with Cons.prems(2) fin show "answers (queries nm) \<noteq> None" by simp
    qed
    from nonce_inv_GetNextNonce [OF Cons.prems(1) r q] have inv1: "nonce_inv answers ?nm1" .
    have ok: "\<forall>i. queries ?nm1 \<le> i \<and> i < queries (snd (run_ops ?c ops ?nm1)) \<longrightarrow> answers i \<noteq> None"
      using Cons.prems(2) fin queries_GetNextNonce [of nm ?c] by auto
    from Cons.IH [OF inv1 ok rest] fin show ?thesis by simp
  next
    case OpResetFromNetwork
    let ?nm1 = "ResetFromNetwork ?c nm"
    have fin: "snd (run_ops ?c (op # ops) nm) = snd (run_ops ?c ops ?nm1)"
      unfolding OpResetFromNetwork run_ops_ResetFromNetwork ..
    from Cons.prems(3) have rest: "\<forall>r \<in> set (fst (run_ops ?c ops ?nm1)). r \<noteq> - 1"
      unfolding OpResetFromNetwork run_ops_ResetFromNetwork .
    from queries_run_ops [of ?nm1 ?c ops] have "queries nm < queries (snd (run_ops ?c ops ?nm1))"
      by (simp add: queries_ResetFromNetwork)
    with Cons.prems(2) fin have "answers (queries nm) \<noteq> None" by simp
    then obtain v where v: "answers (queries nm) = Some v" by auto
    from nonce_inv_ResetFromNetwork [of answers nm v] v have inv1: "nonce_inv answers ?nm1" by simp
    have ok: "\<forall>i. queries ?nm1 \<le> i \<and> i < queries (snd (run_ops ?c ops ?nm1)) \<longrightarrow> answers i \<noteq> None"
      using Cons.prems(2) fin by (auto simp: queries_ResetFromNetwork)
    from Cons.IH [OF inv1 ok rest] fin show ?thesis by simp
  qed
qed

lemma nonce_inv_new: "nonce_inv answers new_manager"
  by (simp add: nonce_inv_def confirmedNonce_def new_manager_def)

section \<open>One nonce query per batch and per run (claim C1)\<close>

text \<open>
  Claim C1, as amended. A batch allocation makes exactly one pending-nonce query whatever
  the count (the query counter goes from \<open>q\<close> to \<open>Suc q\<close>) and returns as many nonces as
  were asked for; they start at the fetched value and each is the one before plus 1 in
  \<^verbatim>\<open>uint64\<close> arithmetic. They are the contiguous range of integers that starts at the
  fetched value exactly when the fetched value plus the count does not pass \<open>2^64\<close>. A run
  of the transfer flow makes at most one pending-nonce query; when it gets as far as
  signing it has made exactly one, for the sender's address, and the transaction it built
  carries the value the node answered.
\<close>

theorem batch_makes_one_query_and_counts_up_in_uint64:
  "snd (AllocateBatch chain n q) = Suc q \<and>
   length (fst (AllocateBatch chain n q)) = n \<and>
   (\<forall>i<n. fst (AllocateBatch chain n q) ! i = chain q + of_nat i) \<and>
   (\<forall>i. Suc i < n \<longrightarrow>
      fst (AllocateBatch chain n q) ! Suc i = fst (AllocateBatch chain n q) ! i + 1) \<and>
   (0 < n \<longrightarrow>
      (map unat (fst (AllocateBatch chain n q)) = [unat (chain q) ..< unat (chain q) + n]) =
      (unat (chain q) + n \<le> 2 ^ 64)) \<and>
   length (filter is_nonce_query (trace (task01 e))) \<le> 1 \<and>
   (SignTx t c k \<in> set (trace (task01 e)) \<longrightarrow>
      filter is_nonce_query (trace (task01 e)) = [PendingNonceAt (lib_pubkeyToAddress e k)] \<and>
      rpc_pendingNonceAt e (lib_pubkeyToAddress e k) = Inr (tx_nonce t))"
proof (intro conjI impI allI)
  show "snd (AllocateBatch chain n q) = Suc q"
    by (simp add: AllocateBatch_def)
  show "length (fst (AllocateBatch chain n q)) = n"
    by (simp add: AllocateBatch_def batch_nonces_def)
  show "length (filter is_nonce_query (trace (task01 e))) \<le> 1"
    by (rule task01_one_nonce_query)
next
  fix i assume "i < n"
  then show "fst (AllocateBatch chain n q) ! i = chain q + of_nat i"
    by (simp add: AllocateBatch_def batch_nonces_def)
next
  fix i assume "Suc i < n"
  then show "fst (AllocateBatch chain n q) ! Suc i = fst (AllocateBatch chain n q) ! i + 1"
    by (simp add: AllocateBatch_def batch_nonces_def)
next
  assume "0 < n"
  then show "(map unat (fst (AllocateBatch chain n q)) = [unat (chain q) ..< unat (chain q) + n]) =
      (unat (chain q) + n \<le> 2 ^ 64)"
    by (simp add: AllocateBatch_def batch_nonces_range_iff)
next
  assume h: "SignTx t c k \<in> set (trace (task01 e))"
  from task01_reaches_send [OF h] have
    s: "SignTx t c k \<in> set (trace (task01_send e (os_getenv e ''PRIVATE_KEY'') (os_getenv e ''RECIPIENT_ADDR'')))"
    and f: "filter is_nonce_query (trace (task01 e)) =
      filter is_nonce_query (trace (task01_send e (os_getenv e ''PRIVATE_KEY'') (os_getenv e ''RECIPIENT_ADDR'')))"
    by auto
  from send_sign_query [OF s] f
  show "filter is_nonce_query (trace (task01 e)) = [PendingNonceAt (lib_pubkeyToAddress e k)]"
    by simp
  from send_sign_facts [OF s]
  show "rpc_pendingNonceAt e (lib_pubkeyToAddress e k) = Inr (tx_nonce t)"
    by simp
qed

theorem batch_one_query_witness:
  "AllocateBatch (\<lambda>_. 5) 3 0 = ([5, 6, 7], 1) \<and>
   map unat (fst (AllocateBatch (\<lambda>_. 5) 3 0)) = [5, 6, 7] \<and>
   unat (5 :: 64 word) + 3 \<le> 2 ^ 64 \<and>
   SignTx \<lparr>tx_nonce = 5, tx_to = 33, tx_amount = 1000000000000000, tx_gasLimit = 21000,
           tx_gasPrice = 20000000000, tx_data = []\<rparr> 11155111 11
     \<in> set (trace (task01 (sepolia_env 1))) \<and>
   filter is_nonce_query (trace (task01 (sepolia_env 1))) = [PendingNonceAt 22] \<and>
   rpc_pendingNonceAt (sepolia_env 1) 22 = Inr 5"
  using batch_makes_one_query_and_counts_up_in_uint64
    [where chain = "\<lambda>_. 5" and n = 3 and q = 0 and e = "sepolia_env 1"
       and c = 11155111 and k = 11
       and t = "\<lparr>tx_nonce = 5, tx_to = 33, tx_amount = 1000000000000000, tx_gasLimit = 21000,
           tx_gasPrice = 20000000000, tx_data = []\<rparr>"]
  by (simp add: task01_sepolia sepolia_answers AllocateBatch_def batch_nonces_def upt_conv_Cons)

text \<open>
  Claim C1 as stated does not hold for every call: when the node answers \<open>2^64 - 1\<close>, a
  batch of three is \<open>2^64 - 1\<close>, 0, 1, which is not a contiguous range.
\<close>

theorem batch_wraps_past_the_last_uint64:
  "fst (AllocateBatch (\<lambda>_. 18446744073709551615) 3 0) = [18446744073709551615, 0, 1] \<and>
   unat (fst (AllocateBatch (\<lambda>_. 18446744073709551615) 3 0) ! 1) \<noteq>
     unat (fst (AllocateBatch (\<lambda>_. 18446744073709551615) 3 0) ! 0) + 1 \<and>
   map unat (fst (AllocateBatch (\<lambda>_. 18446744073709551615) 3 0)) \<noteq>
     [18446744073709551615 ..< 18446744073709551615 + 3]"
  by (simp add: AllocateBatch_def batch_nonces_def upt_conv_Cons)

section \<open>Sequences of allocations (claim C2)\<close>

text \<open>
  Claim C2, as amended. Nonces are taken from the manager by the iterations of the usage
  loop; with every send succeeding there is no reset in between. Taken from a new
  manager, they are the contiguous range that starts at the first fetched pending nonce,
  without duplicates or gaps, and one query serves them all, as long as the fetched value
  plus their number does not pass \<open>2^64\<close>; a second batch taken after a first goes on
  where the first ended and makes no query. The range is contiguous only under that
  bound. Every call leaves \<open>nextNonce\<close> one above the value it returned (in \<^verbatim>\<open>uint64\<close>),
  and on a manager whose \<open>nextNonce\<close> is not 0 it returns \<open>nextNonce\<close> and makes no query.
  Two calls in a row return different values, the second being the first plus 1, unless
  the first returned \<open>2^64 - 1\<close>: then \<open>nextNonce\<close> is 0 and the second call returns what
  the node answers to a new query.
\<close>

theorem manager_nonces_contiguous_until_wrap:
  "(unat (chain 0) + n \<le> 2 ^ 64 \<longrightarrow>
      fst (usage_loop chain (replicate n True) new_manager) = batch_nonces (chain 0) n \<and>
      map unat (fst (usage_loop chain (replicate n True) new_manager)) =
        [unat (chain 0) ..< unat (chain 0) + n] \<and>
      distinct (fst (usage_loop chain (replicate n True) new_manager)) \<and>
      queries (snd (usage_loop chain (replicate n True) new_manager)) = (if n = 0 then 0 else 1)) \<and>
   (0 < j \<and> unat (chain 0) + (j + k) \<le> 2 ^ 64 \<longrightarrow>
      fst (usage_loop chain (replicate k True)
             (snd (usage_loop chain (replicate j True) new_manager))) =
        batch_nonces (chain 0 + of_nat j) k \<and>
      queries (snd (usage_loop chain (replicate k True)
             (snd (usage_loop chain (replicate j True) new_manager)))) = 1) \<and>
   (0 < n \<and> map unat (fst (usage_loop chain (replicate n True) new_manager)) =
        [unat (chain 0) ..< unat (chain 0) + n] \<longrightarrow>
      unat (chain 0) + n \<le> 2 ^ 64) \<and>
   nextNonce (snd (GetNextNonce chain nm)) = fst (GetNextNonce chain nm) + 1 \<and>
   (nextNonce nm \<noteq> 0 \<longrightarrow>
      GetNextNonce chain nm = (nextNonce nm, nm\<lparr>nextNonce := nextNonce nm + 1\<rparr>)) \<and>
   (fst (GetNextNonce chain nm) \<noteq> - 1 \<longrightarrow>
      fst (GetNextNonce chain (snd (GetNextNonce chain nm))) = fst (GetNextNonce chain nm) + 1 \<and>
      fst (GetNextNonce chain (snd (GetNextNonce chain nm))) \<noteq> fst (GetNextNonce chain nm) \<and>
      queries (snd (GetNextNonce chain (snd (GetNextNonce chain nm)))) =
        queries (snd (GetNextNonce chain nm))) \<and>
   (fst (GetNextNonce chain nm) = - 1 \<longrightarrow>
      fst (GetNextNonce chain (snd (GetNextNonce chain nm))) =
        chain (queries (snd (GetNextNonce chain nm))))"
proof (intro conjI impI)
  assume a: "unat (chain 0) + n \<le> 2 ^ 64"
  show f: "fst (usage_loop chain (replicate n True) new_manager) = batch_nonces (chain 0) n"
    using usage_loop_fresh(1) [of chain n] a by simp
  show "map unat (fst (usage_loop chain (replicate n True) new_manager)) =
        [unat (chain 0) ..< unat (chain 0) + n]"
    using batch_nonces_unat [OF a] f by simp
  show "distinct (fst (usage_loop chain (replicate n True) new_manager))"
    using batch_nonces_distinct [OF a] f by simp
  show "queries (snd (usage_loop chain (replicate n True) new_manager)) = (if n = 0 then 0 else 1)"
    using usage_loop_fresh(2) [of chain n] a by simp
next
  assume a: "0 < j \<and> unat (chain 0) + (j + k) \<le> 2 ^ 64"
  then have "usage_loop chain (replicate k True) (snd (usage_loop chain (replicate j True) new_manager)) =
           (batch_nonces (chain 0 + of_nat j) k,
            \<lparr>nextNonce = chain 0 + of_nat j + of_nat k, queries = 1\<rparr>)"
    using usage_loop_second_batch [of j chain k] by simp
  then show "fst (usage_loop chain (replicate k True)
             (snd (usage_loop chain (replicate j True) new_manager))) =
        batch_nonces (chain 0 + of_nat j) k"
    and "queries (snd (usage_loop chain (replicate k True)
             (snd (usage_loop chain (replicate j True) new_manager)))) = 1"
    by simp_all
next
  assume "0 < n \<and> map unat (fst (usage_loop chain (replicate n True) new_manager)) =
        [unat (chain 0) ..< unat (chain 0) + n]"
  then show "unat (chain 0) + n \<le> 2 ^ 64"
    using unat_range_bound [of "fst (usage_loop chain (replicate n True) new_manager)" "unat (chain 0)" n]
    by simp
next
  show "nextNonce (snd (GetNextNonce chain nm)) = fst (GetNextNonce chain nm) + 1"
    by (simp add: GetNextNonce_def Let_def)
next
  assume "nextNonce nm \<noteq> 0"
  then show "GetNextNonce chain nm = (nextNonce nm, nm\<lparr>nextNonce := nextNonce nm + 1\<rparr>)"
    by (rule GetNextNonce_warm)
next
  assume a: "fst (GetNextNonce chain nm) \<noteq> - 1"
  then have n0: "nextNonce (snd (GetNextNonce chain nm)) \<noteq> 0"
    by (auto simp: GetNextNonce_def Let_def add_eq_0_iff2 split: if_splits)
  have n1: "nextNonce (snd (GetNextNonce chain nm)) = fst (GetNextNonce chain nm) + 1"
    by (simp add: GetNextNonce_def Let_def)
  from GetNextNonce_warm [OF n0, of chain] n1
  show "fst (GetNextNonce chain (snd (GetNextNonce chain nm))) = fst (GetNextNonce chain nm) + 1"
    and "fst (GetNextNonce chain (snd (GetNextNonce chain nm))) \<noteq> fst (GetNextNonce chain nm)"
    and "queries (snd (GetNextNonce chain (snd (GetNextNonce chain nm)))) =
        queries (snd (GetNextNonce chain nm))"
    by simp_all
next
  assume a: "fst (GetNextNonce chain nm) = - 1"
  have "nextNonce (snd (GetNextNonce chain nm)) = fst (GetNextNonce chain nm) + 1"
    by (simp add: GetNextNonce_def Let_def)
  with a have z: "nextNonce (snd (GetNextNonce chain nm)) = 0" by simp
  from GetNextNonce_cold [OF z, of chain]
  show "fst (GetNextNonce chain (snd (GetNextNonce chain nm))) =
        chain (queries (snd (GetNextNonce chain nm)))"
    by simp
qed

theorem manager_nonces_witness:
  "fst (usage_loop (\<lambda>_. 5) (replicate 4 True) new_manager) = [5, 6, 7, 8] \<and>
   queries (snd (usage_loop (\<lambda>_. 5) (replicate 4 True) new_manager)) = 1 \<and>
   distinct (fst (usage_loop (\<lambda>_. 5) (replicate 4 True) new_manager)) \<and>
   fst (usage_loop (\<lambda>_. 5) (replicate 2 True)
          (snd (usage_loop (\<lambda>_. 5) (replicate 2 True) new_manager))) = [7, 8] \<and>
   queries (snd (usage_loop (\<lambda>_. 5) (replicate 2 True)
          (snd (usage_loop (\<lambda>_. 5) (replicate 2 True) new_manager)))) = 1 \<and>
   unat (5 :: 64 word) + 4 \<le> 2 ^ 64 \<and>
   GetNextNonce (\<lambda>_. 5) \<lparr>nextNonce = 8, queries = 1\<rparr> = (8, \<lparr>nextNonce = 9, queries = 1\<rparr>) \<and>
   fst (GetNextNonce (\<lambda>_. 5) (snd (GetNextNonce (\<lambda>_. 5) \<lparr>nextNonce = 8, queries = 1\<rparr>))) = 9 \<and>
   fst (GetNextNonce (\<lambda>_. 5) \<lparr>nextNonce = 18446744073709551615, queries = 1\<rparr>) =
     18446744073709551615 \<and>
   fst (GetNextNonce (\<lambda>_. 5)
     (snd (GetNextNonce (\<lambda>_. 5) \<lparr>nextNonce = 18446744073709551615, queries = 1\<rparr>))) = 5"
  using manager_nonces_contiguous_until_wrap
    [where chain = "\<lambda>_. 5" and n = 4 and j = 2 and k = 2 and nm = "\<lparr>nextNonce = 8, queries = 1\<rparr>"]
    manager_nonces_contiguous_until_wrap
    [where chain = "\<lambda>_. 5" and n = 4 and j = 2 and k = 2
       and nm = "\<lparr>nextNonce = 18446744073709551615, queries = 1\<rparr>"]
  by (simp add: GetNextNonce_def batch_nonces_def upt_conv_Cons)

text \<open>
  Claim C2 as stated does not hold: when the node answers \<open>2^64 - 1\<close>, the first call
  hands that value out, \<open>nextNonce\<close> wraps to 0, the second call takes the manager for a
  new one, queries again and returns the same value.
\<close>

theorem same_nonce_twice_after_wrap:
  "usage_loop (\<lambda>_. 18446744073709551615) [True, True] new_manager =
     ([18446744073709551615, 18446744073709551615], \<lparr>nextNonce = 0, queries = 2\<rparr>) \<and>
   \<not> distinct (fst (usage_loop (\<lambda>_. 18446744073709551615) [True, True] new_manager)) \<and>
   fst (GetNextNonce (\<lambda>_. 18446744073709551615)
     (snd (GetNextNonce (\<lambda>_. 18446744073709551615) new_manager))) =
   fst (GetNextNonce (\<lambda>_. 18446744073709551615) new_manager)"
  by (simp add: GetNextNonce_def new_manager_def)

section \<open>A rejected submission (claim C3)\<close>

text \<open>
  Claim C3, as amended. When \<^verbatim>\<open>SendTransaction\<close> fails in the usage loop the manager is
  reset at once: \<^verbatim>\<open>ResetFromNetwork\<close> makes one query and overwrites \<open>nextNonce\<close> with the
  answer. The next \<^verbatim>\<open>GetNextNonce\<close> returns that answer and makes no query of its own,
  except when the answer was 0, which it takes for a first call and queries again. In the
  transfer flow a failed \<^verbatim>\<open>SendTransaction\<close> ends the run with exit, so nothing is kept
  for a later allocation.
\<close>

theorem failed_submission_resets_from_network_at_once:
  "snd (usage_loop chain [False] nm) = ResetFromNetwork chain (snd (GetNextNonce chain nm)) \<and>
   queries (ResetFromNetwork chain mgr) = Suc (queries mgr) \<and>
   nextNonce (ResetFromNetwork chain mgr) = chain (queries mgr) \<and>
   (chain (queries mgr) \<noteq> 0 \<longrightarrow>
      GetNextNonce chain (ResetFromNetwork chain mgr) =
        (chain (queries mgr),
         \<lparr>nextNonce = chain (queries mgr) + 1, queries = Suc (queries mgr)\<rparr>)) \<and>
   (chain (queries mgr) = 0 \<longrightarrow>
      GetNextNonce chain (ResetFromNetwork chain mgr) =
        (chain (Suc (queries mgr)),
         \<lparr>nextNonce = chain (Suc (queries mgr)) + 1, queries = Suc (Suc (queries mgr))\<rparr>)) \<and>
   (SendTransaction s \<in> set (trace (task01 e)) \<and> rpc_sendTransaction e s = Some er \<longrightarrow>
      result (task01 e) = Exit \<and>
      last (trace (task01 e)) = Log ''Failed to send transaction: %v'' [VErr er])"
proof (intro conjI impI)
  show "snd (usage_loop chain [False] nm) = ResetFromNetwork chain (snd (GetNextNonce chain nm))"
    by (simp split: prod.split)
  show "queries (ResetFromNetwork chain mgr) = Suc (queries mgr)"
    by (simp add: ResetFromNetwork_def)
  show "nextNonce (ResetFromNetwork chain mgr) = chain (queries mgr)"
    by (simp add: ResetFromNetwork_def)
next
  assume "chain (queries mgr) \<noteq> 0"
  then show "GetNextNonce chain (ResetFromNetwork chain mgr) =
        (chain (queries mgr), \<lparr>nextNonce = chain (queries mgr) + 1, queries = Suc (queries mgr)\<rparr>)"
    by (simp add: GetNextNonce_def ResetFromNetwork_def)
next
  assume "chain (queries mgr) = 0"
  then show "GetNextNonce chain (ResetFromNetwork chain mgr) =
        (chain (Suc (queries mgr)),
         \<lparr>nextNonce = chain (Suc (queries mgr)) + 1, queries = Suc (Suc (queries mgr))\<rparr>)"
    by (simp add: GetNextNonce_def ResetFromNetwork_def)
next
  assume h: "SendTransaction s \<in> set (trace (task01 e)) \<and> rpc_sendTransaction e s = Some er"
  then have m: "SendTransaction s \<in> set (trace (task01 e))" and r: "rpc_sendTransaction e s = Some er"
    by simp_all
  from task01_reaches_send [OF m] have
    ms: "SendTransaction s \<in> set (trace (task01_send e (os_getenv e ''PRIVATE_KEY'') (os_getenv e ''RECIPIENT_ADDR'')))"
    by auto
  from task01_runs_send [OF m] obtain pre where
    R: "result (task01 e) = result (task01_send e (os_getenv e ''PRIVATE_KEY'') (os_getenv e ''RECIPIENT_ADDR''))"
    and T: "trace (task01 e) = pre @ trace (task01_send e (os_getenv e ''PRIVATE_KEY'') (os_getenv e ''RECIPIENT_ADDR''))"
    by auto
  from ms have ne: "trace (task01_send e (os_getenv e ''PRIVATE_KEY'') (os_getenv e ''RECIPIENT_ADDR'')) \<noteq> []"
    by auto
  from send_rejected [OF ms r] R T ne
  show "result (task01 e) = Exit"
    and "last (trace (task01 e)) = Log ''Failed to send transaction: %v'' [VErr er]"
    by simp_all
qed

theorem failed_submission_witness:
  "snd (usage_loop (\<lambda>i. if i = 2 then 9 else 0) [False] new_manager) =
     \<lparr>nextNonce = 0, queries = 2\<rparr> \<and>
   GetNextNonce (\<lambda>i. if i = 2 then 9 else 0) \<lparr>nextNonce = 0, queries = 2\<rparr> =
     (9, \<lparr>nextNonce = 10, queries = 3\<rparr>) \<and>
   GetNextNonce (\<lambda>_. 7) (ResetFromNetwork (\<lambda>_. 7) \<lparr>nextNonce = 1, queries = 1\<rparr>) =
     (7, \<lparr>nextNonce = 8, queries = 2\<rparr>) \<and>
   SendTransaction 44 \<in> set (trace (task01 ((sepolia_env 1)\<lparr>rpc_sendTransaction := (\<lambda>_. Some ''nonce too low'')\<rparr>))) \<and>
   result (task01 ((sepolia_env 1)\<lparr>rpc_sendTransaction := (\<lambda>_. Some ''nonce too low'')\<rparr>)) = Exit \<and>
   last (trace (task01 ((sepolia_env 1)\<lparr>rpc_sendTransaction := (\<lambda>_. Some ''nonce too low'')\<rparr>))) =
     Log ''Failed to send transaction: %v'' [VErr ''nonce too low'']"
  using
    failed_submission_resets_from_network_at_once
      [where chain = "\<lambda>_. 7" and nm = new_manager and mgr = "\<lparr>nextNonce = 1, queries = 1\<rparr>"
         and e = "(sepolia_env 1)\<lparr>rpc_sendTransaction := (\<lambda>_. Some ''nonce too low'')\<rparr>"
         and s = 44 and er = "''nonce too low''"]
    failed_submission_resets_from_network_at_once
      [where chain = "\<lambda>i. if i = 2 then 9 else 0" and nm = new_manager
         and mgr = "\<lparr>nextNonce = 1, queries = 1\<rparr>"
         and e = "(sepolia_env 1)\<lparr>rpc_sendTransaction := (\<lambda>_. Some ''nonce too low'')\<rparr>"
         and s = 44 and er = "''nonce too low''"]
  by (simp add: task01_sepolia_rejected GetNextNonce_def ResetFromNetwork_def new_manager_def)

text \<open>
  Claim C3 as stated does not hold: with a node that answers 7, the allocation that
  follows a failed submission returns 7 while the number of queries stays at 2; the query
  was made by the reset, not by the allocation.
\<close>

theorem next_allocation_after_reset_makes_no_query:
  "usage_loop (\<lambda>_. 7) [False] new_manager = ([7], \<lparr>nextNonce = 7, queries = 2\<rparr>) \<and>
   GetNextNonce (\<lambda>_. 7) \<lparr>nextNonce = 7, queries = 2\<rparr> = (7, \<lparr>nextNonce = 8, queries = 2\<rparr>)"
  by (simp add: GetNextNonce_def ResetFromNetwork_def new_manager_def)

section \<open>The outcome of the wait for the receipt (claim C4)\<close>

text \<open>
  Claim C4. The contract flow keeps no record of the transaction; what the wait for the
  receipt leads to is seen in how the run ends. When the receipt's status is not 1 the
  run exits and its last line is \<^verbatim>\<open>Transaction failed with status\<close> with that status; this
  differs from a failed wait, whose last line is
  \<^verbatim>\<open>Failed to wait for transaction confirmation\<close> with the error, and from a wait that
  never returns. When the status is 1 the run writes the receipt's block number and gas
  used, writes no failure line, and goes on to read the counter again.
\<close>

theorem receipt_status_decides_outcome:
  "WaitMined s \<in> set (trace (task02 e)) \<longrightarrow>
     (rpc_waitMined e s = None \<longrightarrow>
        result (task02 e) = Hang \<and> last (trace (task02 e)) = WaitMined s) \<and>
     (\<forall>er. rpc_waitMined e s = Some (Inl er) \<longrightarrow>
        result (task02 e) = Exit \<and>
        last (trace (task02 e)) =
          Log ''Failed to wait for transaction confirmation: %v'' [VErr er]) \<and>
     (\<forall>r. rpc_waitMined e s = Some (Inr r) \<and> rcpt_status r \<noteq> 1 \<longrightarrow>
        result (task02 e) = Exit \<and>
        last (trace (task02 e)) =
          Log ''Transaction failed with status: %d'' [VU64 (rcpt_status r)]) \<and>
     (\<forall>r. rpc_waitMined e s = Some (Inr r) \<and> rcpt_status r = 1 \<longrightarrow>
        Log ''Transaction confirmed successfully in block: %d''
          [VU64 (word_of_int (rcpt_blockNumber r))] \<in> set (trace (task02 e)) \<and>
        Log ''Gas used: %d'' [VU64 (rcpt_gasUsed r)] \<in> set (trace (task02 e)) \<and>
        (\<forall>args. Log ''Transaction failed with status: %d'' args \<notin> set (trace (task02 e))) \<and>
        last (filter is_network (trace (task02 e))) = GetCount)"
proof
  assume "WaitMined s \<in> set (trace (task02 e))"
  from task02_reaches_wait [OF this] obtain pre cb where
    T: "trace (task02 e) = pre @ trace (task02_wait e s cb)"
    and R: "result (task02 e) = result (task02_wait e s cb)"
    and F: "\<forall>args. Log ''Transaction failed with status: %d'' args \<notin> set pre"
    by blast
  show "(rpc_waitMined e s = None \<longrightarrow>
        result (task02 e) = Hang \<and> last (trace (task02 e)) = WaitMined s) \<and>
     (\<forall>er. rpc_waitMined e s = Some (Inl er) \<longrightarrow>
        result (task02 e) = Exit \<and>
        last (trace (task02 e)) =
          Log ''Failed to wait for transaction confirmation: %v'' [VErr er]) \<and>
     (\<forall>r. rpc_waitMined e s = Some (Inr r) \<and> rcpt_status r \<noteq> 1 \<longrightarrow>
        result (task02 e) = Exit \<and>
        last (trace (task02 e)) =
          Log ''Transaction failed with status: %d'' [VU64 (rcpt_status r)]) \<and>
     (\<forall>r. rpc_waitMined e s = Some (Inr r) \<and> rcpt_status r = 1 \<longrightarrow>
        Log ''Transaction confirmed successfully in block: %d''
          [VU64 (word_of_int (rcpt_blockNumber r))] \<in> set (trace (task02 e)) \<and>
        Log ''Gas used: %d'' [VU64 (rcpt_gasUsed r)] \<in> set (trace (task02 e)) \<and>
        (\<forall>args. Log ''Transaction failed with status: %d'' args \<notin> set (trace (task02 e))) \<and>
        last (filter is_network (trace (task02 e))) = GetCount)"
    using F by (simp add: T R trace_wait result_wait verify_network)
qed

theorem receipt_status_witness:
  "WaitMined 77 \<in> set (trace (task02 ((sepolia_env 1)\<lparr>rpc_waitMined := (\<lambda>_. None)\<rparr>))) \<and>
   result (task02 ((sepolia_env 1)\<lparr>rpc_waitMined := (\<lambda>_. None)\<rparr>)) = Hang \<and>
   last (trace (task02 ((sepolia_env 1)\<lparr>rpc_waitMined := (\<lambda>_. None)\<rparr>))) = WaitMined 77 \<and>
   result (task02 ((sepolia_env 1)\<lparr>rpc_waitMined := (\<lambda>_. Some (Inl ''timeout''))\<rparr>)) = Exit \<and>
   last (trace (task02 ((sepolia_env 1)\<lparr>rpc_waitMined := (\<lambda>_. Some (Inl ''timeout''))\<rparr>))) =
     Log ''Failed to wait for transaction confirmation: %v'' [VErr ''timeout''] \<and>
   result (task02 ((sepolia_env 1)\<lparr>rpc_waitMined := (\<lambda>_. Some (Inr
       \<lparr>rcpt_status = 0, rcpt_blockNumber = 9000000, rcpt_gasUsed = 43000\<rparr>))\<rparr>)) = Exit \<and>
   last (trace (task02 ((sepolia_env 1)\<lparr>rpc_waitMined := (\<lambda>_. Some (Inr
       \<lparr>rcpt_status = 0, rcpt_blockNumber = 9000000, rcpt_gasUsed = 43000\<rparr>))\<rparr>))) =
     Log ''Transaction failed with status: %d'' [VU64 0] \<and>
   Log ''Transaction confirmed successfully in block: %d'' [VU64 9000000]
     \<in> set (trace (task02 ((sepolia_env 1)\<lparr>rpc_waitMined := (\<lambda>_. Some (Inr
       \<lparr>rcpt_status = 1, rcpt_blockNumber = 9000000, rcpt_gasUsed = 43000\<rparr>))\<rparr>))) \<and>
   Log ''Gas used: %d'' [VU64 43000]
     \<in> set (trace (task02 ((sepolia_env 1)\<lparr>rpc_waitMined := (\<lambda>_. Some (Inr
       \<lparr>rcpt_status = 1, rcpt_blockNumber = 9000000, rcpt_gasUsed = 43000\<rparr>))\<rparr>)))"
  using
    receipt_status_decides_outcome [of 77 "(sepolia_env 1)\<lparr>rpc_waitMined := (\<lambda>_. None)\<rparr>"]
    receipt_status_decides_outcome [of 77 "(sepolia_env 1)\<lparr>rpc_waitMined := (\<lambda>_. Some (Inl ''timeout''))\<rparr>"]
    receipt_status_decides_outcome [of 77 "(sepolia_env 1)\<lparr>rpc_waitMined := (\<lambda>_. Some (Inr
       \<lparr>rcpt_status = 0, rcpt_blockNumber = 9000000, rcpt_gasUsed = 43000\<rparr>))\<rparr>"]
    receipt_status_decides_outcome [of 77 "(sepolia_env 1)\<lparr>rpc_waitMined := (\<lambda>_. Some (Inr
       \<lparr>rcpt_status = 1, rcpt_blockNumber = 9000000, rcpt_gasUsed = 43000\<rparr>))\<rparr>"]
  by (simp add: task02_sepolia_waits)

section \<open>Chain-bound signing (claim C5)\<close>

text \<open>
  Claim C5. Every signing step is given the chain id the node answered in the same run.
  In the transfer flow the only \<^verbatim>\<open>types.SignTx\<close> uses \<^verbatim>\<open>NewEIP155Signer(chainID)\<close> with the
  answer of \<^verbatim>\<open>client.NetworkID\<close>, and what is sent is the result of that signing. In the
  contract flow the only transactor is made by \<^verbatim>\<open>NewKeyedTransactorWithChainID\<close> with the
  answer of \<^verbatim>\<open>client.NetworkID\<close>, and \<^verbatim>\<open>Increment\<close> is called with that transactor. So no
  run signs or submits without having queried the id and passed it on.
\<close>

theorem signing_is_bound_to_the_queried_chain_id:
  "(SignTx t c k \<in> set (trace (task01 e)) \<longrightarrow>
      rpc_networkID e = Inr c \<and> NetworkID \<in> set (trace (task01 e))) \<and>
   (SendTransaction s \<in> set (trace (task01 e)) \<longrightarrow>
      (\<exists>t c k. rpc_networkID e = Inr c \<and> lib_signTx e t c k = Inr s \<and>
         SignTx t c k \<in> set (trace (task01 e)))) \<and>
   (NewKeyedTransactorWithChainID k c \<in> set (trace (task02 e)) \<longrightarrow>
      rpc_networkID e = Inr c \<and> NetworkID \<in> set (trace (task02 e))) \<and>
   (Increment a \<in> set (trace (task02 e)) \<longrightarrow>
      (\<exists>k c. rpc_networkID e = Inr c \<and> lib_newKeyedTransactorWithChainID e k c = Inr a \<and>
         NewKeyedTransactorWithChainID k c \<in> set (trace (task02 e))))"
proof (intro conjI impI)
  assume h: "SignTx t c k \<in> set (trace (task01 e))"
  from task01_reaches_send [OF h] send_sign_facts
  show "rpc_networkID e = Inr c" "NetworkID \<in> set (trace (task01 e))"
    by blast+
next
  assume h: "SendTransaction s \<in> set (trace (task01 e))"
  from task01_reaches_send [OF h] send_submit_facts
  show "\<exists>t c k. rpc_networkID e = Inr c \<and> lib_signTx e t c k = Inr s \<and>
         SignTx t c k \<in> set (trace (task01 e))"
    by blast
next
  assume h: "NewKeyedTransactorWithChainID k c \<in> set (trace (task02 e))"
  from task02_reaches_contract [OF h] obtain u k' c' where
    f: "rpc_networkID e = Inr c'"
      "NewKeyedTransactorWithChainID k c \<in> set (trace (task02_contract e k' c' (os_getenv e ''CONTRACT_ADDR'')))"
      "trace (task02 e) =
             trace (load_dotenv e) @
             [DialContext u, Log ''Connected to Sepolia successfully'' [],
              Log ''Private key loaded successfully'' [], NetworkID,
              Log ''Connected to Sepolia network: %s'' [VBig c'],
              Log ''Recipient address:'' [VStr (os_getenv e ''RECIPIENT_ADDR'')],
              Log ''Contract address:'' [VStr (os_getenv e ''CONTRACT_ADDR'')]]
             @ trace (task02_contract e k' c' (os_getenv e ''CONTRACT_ADDR''))"
    by auto
  from contract_transactor [OF f(2)] f(1) show "rpc_networkID e = Inr c" by simp
  from f(3) show "NetworkID \<in> set (trace (task02 e))" by simp
next
  assume h: "Increment a \<in> set (trace (task02 e))"
  from task02_reaches_contract [OF h] obtain u k' c' where
    f: "rpc_networkID e = Inr c'"
      "Increment a \<in> set (trace (task02_contract e k' c' (os_getenv e ''CONTRACT_ADDR'')))"
      "trace (task02 e) =
             trace (load_dotenv e) @
             [DialContext u, Log ''Connected to Sepolia successfully'' [],
              Log ''Private key loaded successfully'' [], NetworkID,
              Log ''Connected to Sepolia network: %s'' [VBig c'],
              Log ''Recipient address:'' [VStr (os_getenv e ''RECIPIENT_ADDR'')],
              Log ''Contract address:'' [VStr (os_getenv e ''CONTRACT_ADDR'')]]
             @ trace (task02_contract e k' c' (os_getenv e ''CONTRACT_ADDR''))"
    by auto
  from contract_increment [OF f(2)] f(1) f(3)
  show "\<exists>k c. rpc_networkID e = Inr c \<and> lib_newKeyedTransactorWithChainID e k c = Inr a \<and>
         NewKeyedTransactorWithChainID k c \<in> set (trace (task02 e))"
    by auto
qed

theorem signing_chain_id_witness:
  "rpc_networkID (sepolia_env 1) = Inr 11155111 \<and>
   SignTx \<lparr>tx_nonce = 5, tx_to = 33, tx_amount = 1000000000000000, tx_gasLimit = 21000,
           tx_gasPrice = 20000000000, tx_data = []\<rparr> 11155111 11
     \<in> set (trace (task01 (sepolia_env 1))) \<and>
   NetworkID \<in> set (trace (task01 (sepolia_env 1))) \<and>
   SendTransaction 44 \<in> set (trace (task01 (sepolia_env 1))) \<and>
   NewKeyedTransactorWithChainID 11 11155111 \<in> set (trace (task02 (sepolia_env 1))) \<and>
   NetworkID \<in> set (trace (task02 (sepolia_env 1))) \<and>
   Increment 66 \<in> set (trace (task02 (sepolia_env 1))) \<and>
   lib_newKeyedTransactorWithChainID (sepolia_env 1) 11 11155111 = Inr 66"
  using signing_is_bound_to_the_queried_chain_id
    [where e = "sepolia_env 1" and c = 11155111 and k = 11 and s = 44 and a = 66
       and t = "\<lparr>tx_nonce = 5, tx_to = 33, tx_amount = 1000000000000000, tx_gasLimit = 21000,
           tx_gasPrice = 20000000000, tx_data = []\<rparr>"]
  by (simp add: task01_sepolia task02_sepolia_confirmed sepolia_answers)

section \<open>The nonce invariant (claim C6)\<close>

text \<open>
  Claim C6, as amended. In every state the manager reaches from a new one by
  \<^verbatim>\<open>GetNextNonce\<close> and \<^verbatim>\<open>ResetFromNetwork\<close>, \<open>nextNonce\<close> is not below \<open>confirmedNonce\<close>,
  provided that none of the queries made has failed and that the nonce \<open>2^64 - 1\<close> has not
  been handed out; each of the two operations keeps the invariant under these provisos.
  A reset whose query succeeds sets \<open>nextNonce\<close> and \<open>confirmedNonce\<close> to the freshly queried
  value, and a first \<^verbatim>\<open>GetNextNonce\<close> whose query succeeds returns the freshly queried
  value and leaves \<open>nextNonce\<close> one above it. In the transfer flow, which checks the error
  of the query, the nonce of the transaction is the value the node answered.
\<close>

theorem next_nonce_not_below_confirmed_without_failure_or_wrap:
  "((\<forall>i < queries (snd (run_ops (discard_error answers) ops new_manager)). answers i \<noteq> None) \<and>
    (\<forall>r \<in> set (fst (run_ops (discard_error answers) ops new_manager)). r \<noteq> - 1) \<longrightarrow>
      nonce_inv answers (snd (run_ops (discard_error answers) ops new_manager))) \<and>
   (nonce_inv answers nm \<and> fst (GetNextNonce (discard_error answers) nm) \<noteq> - 1 \<and>
    (nextNonce nm = 0 \<longrightarrow> answers (queries nm) \<noteq> None) \<longrightarrow>
      nonce_inv answers (snd (GetNextNonce (discard_error answers) nm))) \<and>
   (answers (queries nm) = Some v \<longrightarrow>
      nextNonce (ResetFromNetwork (discard_error answers) nm) = v \<and>
      confirmedNonce answers (ResetFromNetwork (discard_error answers) nm) = Some v \<and>
      nonce_inv answers (ResetFromNetwork (discard_error answers) nm)) \<and>
   (nextNonce nm = 0 \<and> answers (queries nm) = Some v \<longrightarrow>
      fst (GetNextNonce (discard_error answers) nm) = v \<and>
      confirmedNonce answers (snd (GetNextNonce (discard_error answers) nm)) = Some v \<and>
      nextNonce (snd (GetNextNonce (discard_error answers) nm)) = v + 1) \<and>
   (SignTx t c k \<in> set (trace (task01 e)) \<longrightarrow>
      rpc_pendingNonceAt e (lib_pubkeyToAddress e k) = Inr (tx_nonce t))"
proof (intro conjI impI)
  assume a: "(\<forall>i < queries (snd (run_ops (discard_error answers) ops new_manager)). answers i \<noteq> None) \<and>
    (\<forall>r \<in> set (fst (run_ops (discard_error answers) ops new_manager)). r \<noteq> - 1)"
  then have 1: "\<forall>i. queries new_manager \<le> i \<and>
        i < queries (snd (run_ops (discard_error answers) ops new_manager)) \<longrightarrow> answers i \<noteq> None"
    and 2: "\<forall>r \<in> set (fst (run_ops (discard_error answers) ops new_manager)). r \<noteq> - 1"
    by simp_all
  from nonce_inv_run_ops [OF nonce_inv_new 1 2]
  show "nonce_inv answers (snd (run_ops (discard_error answers) ops new_manager))" .
next
  assume "nonce_inv answers nm \<and> fst (GetNextNonce (discard_error answers) nm) \<noteq> - 1 \<and>
    (nextNonce nm = 0 \<longrightarrow> answers (queries nm) \<noteq> None)"
  then show "nonce_inv answers (snd (GetNextNonce (discard_error answers) nm))"
    using nonce_inv_GetNextNonce by blast
next
  assume v: "answers (queries nm) = Some v"
  from nonce_inv_ResetFromNetwork [of answers nm v] v
  show "nextNonce (ResetFromNetwork (discard_error answers) nm) = v"
    and "confirmedNonce answers (ResetFromNetwork (discard_error answers) nm) = Some v"
    and "nonce_inv answers (ResetFromNetwork (discard_error answers) nm)"
    by simp_all
next
  assume a: "nextNonce nm = 0 \<and> answers (queries nm) = Some v"
  then have z: "nextNonce nm = 0" and v: "answers (queries nm) = Some v" by simp_all
  from GetNextNonce_cold [OF z, of "discard_error answers"] discard_error_Some [of answers "queries nm" v] v
  show "fst (GetNextNonce (discard_error answers) nm) = v"
    and "confirmedNonce answers (snd (GetNextNonce (discard_error answers) nm)) = Some v"
    and "nextNonce (snd (GetNextNonce (discard_error answers) nm)) = v + 1"
    by (simp_all add: confirmedNonce_def v)
next
  assume h: "SignTx t c k \<in> set (trace (task01 e))"
  from task01_reaches_send [OF h] have
    "SignTx t c k \<in> set (trace (task01_send e (os_getenv e ''PRIVATE_KEY'') (os_getenv e ''RECIPIENT_ADDR'')))"
    by auto
  from send_sign_facts [OF this]
  show "rpc_pendingNonceAt e (lib_pubkeyToAddress e k) = Inr (tx_nonce t)" by simp
qed

theorem next_nonce_invariant_witness:
  "fst (run_ops (discard_error (\<lambda>i. Some (if i = 0 then 5 else 9)))
          [OpGetNextNonce, OpGetNextNonce, OpResetFromNetwork, OpGetNextNonce] new_manager) = [5, 6, 9] \<and>
   nextNonce (snd (run_ops (discard_error (\<lambda>i. Some (if i = 0 then 5 else 9)))
          [OpGetNextNonce, OpGetNextNonce, OpResetFromNetwork, OpGetNextNonce] new_manager)) = 10 \<and>
   queries (snd (run_ops (discard_error (\<lambda>i. Some (if i = 0 then 5 else 9)))
          [OpGetNextNonce, OpGetNextNonce, OpResetFromNetwork, OpGetNextNonce] new_manager)) = 2 \<and>
   confirmedNonce (\<lambda>i. Some (if i = 0 then 5 else 9))
     (snd (run_ops (discard_error (\<lambda>i. Some (if i = 0 then 5 else 9)))
          [OpGetNextNonce, OpGetNextNonce, OpResetFromNetwork, OpGetNextNonce] new_manager)) = Some 9 \<and>
   nonce_inv (\<lambda>i. Some (if i = 0 then 5 else 9))
     (snd (run_ops (discard_error (\<lambda>i. Some (if i = 0 then 5 else 9)))
          [OpGetNextNonce, OpGetNextNonce, OpResetFromNetwork, OpGetNextNonce] new_manager)) \<and>
   fst (GetNextNonce (discard_error (\<lambda>i. Some (if i = 0 then 5 else 9))) new_manager) = 5 \<and>
   nextNonce (snd (GetNextNonce (discard_error (\<lambda>i. Some (if i = 0 then 5 else 9))) new_manager)) = 6 \<and>
   nextNonce (ResetFromNetwork (discard_error (\<lambda>i. Some (if i = 0 then 5 else 9))) new_manager) = 5 \<and>
   rpc_pendingNonceAt (sepolia_env 1) 22 = Inr 5"
  using next_nonce_not_below_confirmed_without_failure_or_wrap
    [where answers = "\<lambda>i. Some (if i = 0 then 5 else 9)"
       and ops = "[OpGetNextNonce, OpGetNextNonce, OpResetFromNetwork, OpGetNextNonce]"
       and nm = new_manager and v = 5 and e = "sepolia_env 1" and c = 11155111 and k = 11
       and t = "\<lparr>tx_nonce = 5, tx_to = 33, tx_amount = 1000000000000000, tx_gasLimit = 21000,
           tx_gasPrice = 20000000000, tx_data = []\<rparr>"]
  by (simp add: task01_sepolia sepolia_answers GetNextNonce_def ResetFromNetwork_def new_manager_def
      discard_error_def confirmedNonce_def)

text \<open>
  Claim C6 as stated does not hold. The manager drops the error of a query: when the node
  answers 5 and the query of a later reset fails, \<open>nextNonce\<close> becomes 0, below the
  confirmed 5. And \<open>nextNonce\<close> is a \<^verbatim>\<open>uint64\<close>: when the node answers \<open>2^64 - 1\<close>, the first
  \<^verbatim>\<open>GetNextNonce\<close> hands that value out and \<open>nextNonce\<close> wraps to 0.
\<close>

theorem next_nonce_below_confirmed_after_failed_query_or_wrap:
  "fst (run_ops (discard_error (\<lambda>i. if i = 0 then Some 5 else None))
          [OpGetNextNonce, OpResetFromNetwork] new_manager) = [5] \<and>
   nextNonce (snd (run_ops (discard_error (\<lambda>i. if i = 0 then Some 5 else None))
          [OpGetNextNonce, OpResetFromNetwork] new_manager)) = 0 \<and>
   confirmedNonce (\<lambda>i. if i = 0 then Some 5 else None)
     (snd (run_ops (discard_error (\<lambda>i. if i = 0 then Some 5 else None))
          [OpGetNextNonce, OpResetFromNetwork] new_manager)) = Some 5 \<and>
   \<not> nonce_inv (\<lambda>i. if i = 0 then Some 5 else None)
     (snd (run_ops (discard_error (\<lambda>i. if i = 0 then Some 5 else None))
          [OpGetNextNonce, OpResetFromNetwork] new_manager)) \<and>
   fst (run_ops (discard_error (\<lambda>_. Some 18446744073709551615)) [OpGetNextNonce] new_manager) =
     [18446744073709551615] \<and>
   nextNonce (snd (run_ops (discard_error (\<lambda>_. Some 18446744073709551615)) [OpGetNextNonce]
     new_manager)) = 0 \<and>
   confirmedNonce (\<lambda>_. Some 18446744073709551615)
     (snd (run_ops (discard_error (\<lambda>_. Some 18446744073709551615)) [OpGetNextNonce] new_manager)) =
     Some 18446744073709551615 \<and>
   \<not> nonce_inv (\<lambda>_. Some 18446744073709551615)
     (snd (run_ops (discard_error (\<lambda>_. Some 18446744073709551615)) [OpGetNextNonce] new_manager))"
  by (simp add: GetNextNonce_def ResetFromNetwork_def new_manager_def discard_error_def
      confirmedNonce_def nonce_inv_def)

section \<open>No resubmission after an unfinished wait (claim C7)\<close>

text \<open>
  Claim C7. Every run of either flow hands at most one transaction to the node. The
  context of the contract flow has no deadline and is never cancelled; when the wait for
  the receipt returns an error or never returns, the run does not return normally, the
  wait is the last event that goes to the network, the one submission of the run is the
  \<^verbatim>\<open>Increment\<close> that produced the awaited transaction, and the last word on the transaction
  is the line that it was sent: neither the confirmation line nor the failure line is
  written. Nothing is rolled back and nothing is sent again.
\<close>

theorem no_resubmission_after_unfinished_wait:
  "length (filter is_submission (trace (task01 e))) \<le> 1 \<and>
   length (filter is_submission (trace (task02 e))) \<le> 1 \<and>
   (WaitMined s \<in> set (trace (task02 e)) \<and>
    (rpc_waitMined e s = None \<or> (\<exists>er. rpc_waitMined e s = Some (Inl er))) \<longrightarrow>
      result (task02 e) \<noteq> Ret () \<and>
      last (filter is_network (trace (task02 e))) = WaitMined s \<and>
      (\<exists>a. rpc_increment e a = Inr s \<and> filter is_submission (trace (task02 e)) = [Increment a]) \<and>
      Log ''Counter increment transaction sent: %s'' [VHash (lib_txHash e s)] \<in> set (trace (task02 e)) \<and>
      (\<forall>args. Log ''Transaction confirmed successfully in block: %d'' args \<notin> set (trace (task02 e))) \<and>
      (\<forall>args. Log ''Transaction failed with status: %d'' args \<notin> set (trace (task02 e))))"
proof (intro conjI impI)
  show "length (filter is_submission (trace (task01 e))) \<le> 1" by (rule task01_submissions)
  show "length (filter is_submission (trace (task02 e))) \<le> 1" by (rule task02_submissions)
next
  assume h: "WaitMined s \<in> set (trace (task02 e)) \<and>
    (rpc_waitMined e s = None \<or> (\<exists>er. rpc_waitMined e s = Some (Inl er)))"
  from task02_reaches_wait [of s e] h obtain pre u a cb where
    T: "trace (task02 e) = pre @ trace (task02_wait e s cb)"
    and R: "result (task02 e) = result (task02_wait e s cb)"
    and I: "rpc_increment e a = Inr s"
    and N: "filter is_network pre = [DialContext u, NetworkID, GetCount, Increment a]"
    and S: "filter is_submission pre = [Increment a]"
    and L: "Log ''Counter increment transaction sent: %s'' [VHash (lib_txHash e s)] \<in> set pre"
    and C: "\<forall>args. Log ''Transaction confirmed successfully in block: %d'' args \<notin> set pre"
    and F: "\<forall>args. Log ''Transaction failed with status: %d'' args \<notin> set pre"
    by blast
  from h show "result (task02 e) \<noteq> Ret ()" by (auto simp: R result_wait)
  from h show "last (filter is_network (trace (task02 e))) = WaitMined s"
    by (auto simp: T N trace_wait)
  from h I show "\<exists>a. rpc_increment e a = Inr s \<and> filter is_submission (trace (task02 e)) = [Increment a]"
    by (auto simp: T S)
  from L show "Log ''Counter increment transaction sent: %s'' [VHash (lib_txHash e s)] \<in> set (trace (task02 e))"
    by (simp add: T)
  from h C show "\<forall>args. Log ''Transaction confirmed successfully in block: %d'' args \<notin> set (trace (task02 e))"
    by (auto simp: T trace_wait)
  from h F show "\<forall>args. Log ''Transaction failed with status: %d'' args \<notin> set (trace (task02 e))"
    by (auto simp: T trace_wait)
qed

theorem no_resubmission_witness:
  "WaitMined 77 \<in> set (trace (task02 ((sepolia_env 1)\<lparr>rpc_waitMined := (\<lambda>_. None)\<rparr>))) \<and>
   result (task02 ((sepolia_env 1)\<lparr>rpc_waitMined := (\<lambda>_. None)\<rparr>)) \<noteq> Ret () \<and>
   last (filter is_network (trace (task02 ((sepolia_env 1)\<lparr>rpc_waitMined := (\<lambda>_. None)\<rparr>)))) =
     WaitMined 77 \<and>
   (\<exists>a. filter is_submission (trace (task02 ((sepolia_env 1)\<lparr>rpc_waitMined := (\<lambda>_. None)\<rparr>))) =
      [Increment a]) \<and>
   result (task02 ((sepolia_env 1)\<lparr>rpc_waitMined := (\<lambda>_. Some (Inl ''canceled''))\<rparr>)) \<noteq> Ret () \<and>
   last (filter is_network
      (trace (task02 ((sepolia_env 1)\<lparr>rpc_waitMined := (\<lambda>_. Some (Inl ''canceled''))\<rparr>)))) =
     WaitMined 77"
  using
    no_resubmission_after_unfinished_wait [of "(sepolia_env 1)\<lparr>rpc_waitMined := (\<lambda>_. None)\<rparr>" 77]
    no_resubmission_after_unfinished_wait
      [of "(sepolia_env 1)\<lparr>rpc_waitMined := (\<lambda>_. Some (Inl ''canceled''))\<rparr>" 77]
  by (auto simp: task02_sepolia_waits)

section \<open>Configuration (claim C9)\<close>

text \<open>
  Claim C9. An empty or unset RPC endpoint variable (\<^verbatim>\<open>SEPOLIA_RPC\<close> in the transfer flow,
  \<^verbatim>\<open>RPC_URL\<close> in the contract flow) is replaced by the hardcoded Alchemy Sepolia endpoint
  without a line being written, and the run goes on to dial that endpoint; an empty
  \<^verbatim>\<open>PRIVATE_KEY\<close> or \<^verbatim>\<open>RECIPIENT_ADDR\<close> (and, in the contract flow, \<^verbatim>\<open>CONTRACT_ADDR\<close>) ends the
  run with exit before any event goes to the network. \<^verbatim>\<open>os.Getenv\<close> gives the empty
  string for an unset variable.
\<close>

theorem config_defaults_and_required_variables:
  "(os_getenv e ''PRIVATE_KEY'' = [] \<or> os_getenv e ''RECIPIENT_ADDR'' = [] \<longrightarrow>
      result (task01 e) = Exit \<and> filter is_network (trace (task01 e)) = []) \<and>
   (os_getenv e ''PRIVATE_KEY'' = [] \<or> os_getenv e ''RECIPIENT_ADDR'' = [] \<or>
    os_getenv e ''CONTRACT_ADDR'' = [] \<longrightarrow>
      result (task02 e) = Exit \<and> filter is_network (trace (task02 e)) = []) \<and>
   (os_getenv e ''SEPOLIA_RPC'' = [] \<and> os_getenv e ''PRIVATE_KEY'' \<noteq> [] \<and>
    os_getenv e ''RECIPIENT_ADDR'' \<noteq> [] \<longrightarrow>
      (\<exists>rest. trace (task01 e) = trace (load_dotenv e) @ DialContext
        ''https://eth-sepolia.g.alchemy.com/v2/5kxZJaABVsl6R8LWJEcDvkapc6nwG8ik'' # rest)) \<and>
   (os_getenv e ''RPC_URL'' = [] \<and> os_getenv e ''PRIVATE_KEY'' \<noteq> [] \<and>
    os_getenv e ''RECIPIENT_ADDR'' \<noteq> [] \<and> os_getenv e ''CONTRACT_ADDR'' \<noteq> [] \<longrightarrow>
      (\<exists>rest. trace (task02 e) = trace (load_dotenv e) @ DialContext
        ''https://eth-sepolia.g.alchemy.com/v2/5kxZJaABVsl6R8LWJEcDvkapc6nwG8ik'' # rest))"
proof (intro conjI impI)
  assume "os_getenv e ''PRIVATE_KEY'' = [] \<or> os_getenv e ''RECIPIENT_ADDR'' = []"
  then show "result (task01 e) = Exit" "filter is_network (trace (task01 e)) = []"
    by (auto simp: task01_def Let_def)
next
  assume "os_getenv e ''PRIVATE_KEY'' = [] \<or> os_getenv e ''RECIPIENT_ADDR'' = [] \<or>
    os_getenv e ''CONTRACT_ADDR'' = []"
  then show "result (task02 e) = Exit" "filter is_network (trace (task02 e)) = []"
    by (auto simp: task02_def Let_def)
next
  assume "os_getenv e ''SEPOLIA_RPC'' = [] \<and> os_getenv e ''PRIVATE_KEY'' \<noteq> [] \<and>
    os_getenv e ''RECIPIENT_ADDR'' \<noteq> []"
  then show "\<exists>rest. trace (task01 e) = trace (load_dotenv e) @ DialContext
        ''https://eth-sepolia.g.alchemy.com/v2/5kxZJaABVsl6R8LWJEcDvkapc6nwG8ik'' # rest"
    using blocks_starts_with_dial [of e default_rpc]
    by (auto simp: task01_def Let_def trace_andthen default_rpc_def split: res.splits)
next
  assume "os_getenv e ''RPC_URL'' = [] \<and> os_getenv e ''PRIVATE_KEY'' \<noteq> [] \<and>
    os_getenv e ''RECIPIENT_ADDR'' \<noteq> [] \<and> os_getenv e ''CONTRACT_ADDR'' \<noteq> []"
  then show "\<exists>rest. trace (task02 e) = trace (load_dotenv e) @ DialContext
        ''https://eth-sepolia.g.alchemy.com/v2/5kxZJaABVsl6R8LWJEcDvkapc6nwG8ik'' # rest"
    by (simp add: task02_def Let_def default_rpc_def split: option.splits)
qed

theorem config_defaults_witness:
  "result (task01 ((sepolia_env 1)\<lparr>os_getenv := (\<lambda>_. [])\<rparr>)) = Exit \<and>
   filter is_network (trace (task01 ((sepolia_env 1)\<lparr>os_getenv := (\<lambda>_. [])\<rparr>))) = [] \<and>
   result (task02 ((sepolia_env 1)\<lparr>os_getenv := (\<lambda>_. [])\<rparr>)) = Exit \<and>
   filter is_network (trace (task02 ((sepolia_env 1)\<lparr>os_getenv := (\<lambda>_. [])\<rparr>))) = [] \<and>
   (\<exists>rest. trace (task01 (sepolia_env 1)) = DialContext
        ''https://eth-sepolia.g.alchemy.com/v2/5kxZJaABVsl6R8LWJEcDvkapc6nwG8ik'' # rest) \<and>
   (\<exists>rest. trace (task02 (sepolia_env 1)) = DialContext
        ''https://eth-sepolia.g.alchemy.com/v2/5kxZJaABVsl6R8LWJEcDvkapc6nwG8ik'' # rest)"
  using config_defaults_and_required_variables [of "(sepolia_env 1)\<lparr>os_getenv := (\<lambda>_. [])\<rparr>"]
    config_defaults_and_required_variables [of "sepolia_env 1"]
  by (simp add: sepolia_env_def load_dotenv_def)

end
